theory Spec2Isabelle
  imports Complex_Main "HOL-Library.Word"
begin

section \<open>JavaScript strings and numbers\<close>

text \<open>
  The advice engine of \<^verbatim>\<open>src/App.tsx\<close> (the part that was \<^verbatim>\<open>localAdviceService\<close>)
  works on JavaScript strings and numbers. A JavaScript string is a sequence of UTF-16
  code units, so it is modelled as a list of 16-bit words; equality, \<^verbatim>\<open>split\<close>,
  \<^verbatim>\<open>trim\<close>, \<^verbatim>\<open>includes\<close> and \<^verbatim>\<open>replace\<close> all work on code units.
  ASCII literals of the source are written \<open>ascii ''...''\<close>; the Korean messages are
  given by their code units.
\<close>

type_synonym jschar = "16 word"
type_synonym jsstring = "jschar list"

definition ascii :: "string \<Rightarrow> jsstring" where
  "ascii s = map of_char s"

text \<open>
  \<^verbatim>\<open>String.prototype.trim\<close> and \<^verbatim>\<open>Number\<close> strip the code points of
  ECMAScript's WhiteSpace and LineTerminator productions: TAB, LF, VT, FF, CR, SPACE,
  NBSP, U+1680, U+2000 to U+200A, U+2028, U+2029, U+202F, U+205F, U+3000 and U+FEFF.
\<close>

definition isWhiteSpace :: "jschar \<Rightarrow> bool" where
  "isWhiteSpace c \<longleftrightarrow>
     c = 0x09 \<or> c = 0x0A \<or> c = 0x0B \<or> c = 0x0C \<or> c = 0x0D \<or> c = 0x20 \<or> c = 0xA0 \<or>
     c = 0x1680 \<or> (0x2000 \<le> c \<and> c \<le> 0x200A) \<or> c = 0x2028 \<or> c = 0x2029 \<or>
     c = 0x202F \<or> c = 0x205F \<or> c = 0x3000 \<or> c = 0xFEFF"

definition trim :: "jsstring \<Rightarrow> jsstring" where
  "trim s = rev (dropWhile isWhiteSpace (rev (dropWhile isWhiteSpace s)))"

text \<open>
  \<^verbatim>\<open>s.split(c)\<close> with a one-character separator: \<open>n\<close> occurrences of the
  separator give \<open>n + 1\<close> parts, empty parts included.
\<close>

fun splitOn :: "jschar \<Rightarrow> jsstring \<Rightarrow> jsstring list" where
  "splitOn c [] = [[]]"
| "splitOn c (x # xs) =
     (if x = c then [] # splitOn c xs
      else (case splitOn c xs of [] \<Rightarrow> [[x]] | p # ps \<Rightarrow> (x # p) # ps))"

fun startsWith :: "jsstring \<Rightarrow> jsstring \<Rightarrow> bool" where
  "startsWith s [] = True"
| "startsWith [] (p # ps) = False"
| "startsWith (c # cs) (p # ps) = (c = p \<and> startsWith cs ps)"

text \<open>\<^verbatim>\<open>s.includes(p)\<close>: \<open>p\<close> occurs in \<open>s\<close> as a contiguous run of code units.\<close>

fun includes_str :: "jsstring \<Rightarrow> jsstring \<Rightarrow> bool" where
  "includes_str [] p = (p = [])"
| "includes_str (c # cs) p = (startsWith (c # cs) p \<or> includes_str cs p)"

subsection \<open>Numbers\<close>

text \<open>
  A JavaScript number is an IEEE binary64 value: NaN, an infinity, or a finite value,
  which is a rational number (the two zeros are not told apart by any operation used
  here). \<open>roundToDouble\<close> is round-to-nearest, ties to even, with gradual underflow
  and overflow to infinity.
\<close>

datatype jsnum = NaN | NegInf | Fin rat | PosInf

definition ratPow :: "int \<Rightarrow> int \<Rightarrow> rat" where
  "ratPow b e = (if 0 \<le> e then of_int b ^ nat e else 1 / of_int b ^ nat (- e))"

function ilog2 :: "int \<Rightarrow> int" where
  "ilog2 n = (if n < 2 then 0 else 1 + ilog2 (n div 2))"
  by pat_completeness auto
termination
  by (relation "measure nat") auto

definition floorLog2 :: "rat \<Rightarrow> int" where
  "floorLog2 q =
     (let (a, b) = quotient_of q;
          e0 = ilog2 a - ilog2 b
      in if ratPow 2 e0 \<le> q then e0 else e0 - 1)"

definition roundHalfEven :: "rat \<Rightarrow> int" where
  "roundHalfEven x =
     (let f = \<lfloor>x\<rfloor>; d = x - of_int f
      in if d < 1 / 2 then f else if 1 / 2 < d then f + 1 else if even f then f else f + 1)"

definition roundToDouble :: "rat \<Rightarrow> jsnum" where
  "roundToDouble q =
     (if q = 0 then Fin 0
      else let a = \<bar>q\<bar>;
               e = max (- 1022) (floorLog2 a);
               ulp = ratPow 2 (e - 52);
               v = of_int (roundHalfEven (a / ulp)) * ulp
           in if ratPow 2 1024 \<le> v then (if q < 0 then NegInf else PosInf)
              else Fin (if q < 0 then - v else v))"

definition digitOf :: "jschar \<Rightarrow> int option" where
  "digitOf c =
     (if 0x30 \<le> c \<and> c \<le> 0x39 then Some (uint c - 48)
      else if 0x61 \<le> c \<and> c \<le> 0x66 then Some (uint c - 87)
      else if 0x41 \<le> c \<and> c \<le> 0x46 then Some (uint c - 55)
      else None)"

definition isDigitIn :: "int \<Rightarrow> jschar \<Rightarrow> bool" where
  "isDigitIn base c = (case digitOf c of None \<Rightarrow> False | Some d \<Rightarrow> d < base)"

definition digitsValue :: "int \<Rightarrow> jsstring \<Rightarrow> int" where
  "digitsValue base ds =
     foldl (\<lambda>acc c. acc * base + (case digitOf c of None \<Rightarrow> 0 | Some d \<Rightarrow> d)) 0 ds"

text \<open>ExponentPart of a decimal literal: nothing, or \<^verbatim>\<open>e\<close>/\<^verbatim>\<open>E\<close>, an optional sign and digits.\<close>

definition parseExponent :: "jsstring \<Rightarrow> int option" where
  "parseExponent r =
     (case r of
        [] \<Rightarrow> Some 0
      | c # ds \<Rightarrow>
          if c = 0x65 \<or> c = 0x45 then
            (case ds of
               [] \<Rightarrow> None
             | s # ds' \<Rightarrow>
                 if s = 0x2B \<or> s = 0x2D then
                   (if ds' \<noteq> [] \<and> list_all (isDigitIn 10) ds'
                    then Some ((if s = 0x2D then - 1 else 1) * digitsValue 10 ds')
                    else None)
                 else if list_all (isDigitIn 10) ds then Some (digitsValue 10 ds)
                 else None)
          else None)"

text \<open>
  StrUnsignedDecimalLiteral: \<^verbatim>\<open>Infinity\<close>, or digits with an optional fraction and
  exponent, at least one digit before or after the point.
\<close>

definition parseUnsignedDecimal :: "jsstring \<Rightarrow> jsnum" where
  "parseUnsignedDecimal s =
     (if s = ascii ''Infinity'' then PosInf
      else let ip = takeWhile (isDigitIn 10) s;
               r1 = dropWhile (isDigitIn 10) s;
               hasDot = (case r1 of [] \<Rightarrow> False | c # _ \<Rightarrow> c = 0x2E);
               fp = (if hasDot then takeWhile (isDigitIn 10) (tl r1) else []);
               r2 = (if hasDot then dropWhile (isDigitIn 10) (tl r1) else r1)
           in if ip = [] \<and> fp = [] then NaN
              else (case parseExponent r2 of
                      None \<Rightarrow> NaN
                    | Some e \<Rightarrow>
                        roundToDouble (of_int (digitsValue 10 (ip @ fp))
                                       * ratPow 10 (e - int (length fp)))))"

definition negate :: "jsnum \<Rightarrow> jsnum" where
  "negate x = (case x of NaN \<Rightarrow> NaN | NegInf \<Rightarrow> PosInf | Fin q \<Rightarrow> Fin (- q) | PosInf \<Rightarrow> NegInf)"

text \<open>NonDecimalIntegerLiteral: \<^verbatim>\<open>0x\<close>, \<^verbatim>\<open>0o\<close>, \<^verbatim>\<open>0b\<close> (either case) and digits; no sign.\<close>

definition parseNonDecimal :: "jsstring \<Rightarrow> jsnum option" where
  "parseNonDecimal s =
     (case s of
        z # x # ds \<Rightarrow>
          (let base = (if x = 0x78 \<or> x = 0x58 then 16
                       else if x = 0x6F \<or> x = 0x4F then 8
                       else if x = 0x62 \<or> x = 0x42 then 2 else (0::int))
           in if z = 0x30 \<and> base \<noteq> 0 \<and> ds \<noteq> [] \<and> list_all (isDigitIn base) ds
              then Some (roundToDouble (of_int (digitsValue base ds)))
              else None)
      | _ \<Rightarrow> None)"

text \<open>
  \<^verbatim>\<open>Number(s)\<close> on a string (ECMAScript StringToNumber): white space is stripped on
  both sides, the empty string is 0, a string that is not a StrNumericLiteral is NaN.
\<close>

definition Number :: "jsstring \<Rightarrow> jsnum" where
  "Number s =
     (let t = trim s
      in case t of
           [] \<Rightarrow> Fin 0
         | c # cs \<Rightarrow>
             (case parseNonDecimal t of
                Some v \<Rightarrow> v
              | None \<Rightarrow>
                  if c = 0x2B then parseUnsignedDecimal cs
                  else if c = 0x2D then negate (parseUnsignedDecimal cs)
                  else parseUnsignedDecimal t))"

definition isNaN :: "jsnum \<Rightarrow> bool" where
  "isNaN x \<longleftrightarrow> x = NaN"

text \<open>\<^verbatim>\<open>String(n)\<close> for a count: its decimal digits.\<close>

fun natDigits :: "nat \<Rightarrow> jsstring" where
  "natDigits n = (if n < 10 then [] else natDigits (n div 10)) @ [of_nat (48 + n mod 10)]"

definition String :: "nat \<Rightarrow> jsstring" where
  "String n = natDigits n"

section \<open>The log summary and the criteria evaluator\<close>

text \<open>
  \<^verbatim>\<open>interface LogSummaryForAdvice\<close>: eight counters. The caller
  (\<^verbatim>\<open>AdviceCoach.tsx\<close>) builds the summary as an object literal from counts
  (\<^verbatim>\<open>x || 0\<close>, array lengths), so the fields are natural numbers, taken here in the
  range where binary64 arithmetic on integers is exact.
\<close>

record LogSummaryForAdvice =
  goodThoughts :: nat
  badThoughts :: nat
  goodActions :: nat
  badActions :: nat
  goodWordsCount :: nat
  badWordsCount :: nat
  happyEvents :: nat
  toughEvents :: nat

text \<open>
  The values \<^verbatim>\<open>summary[key]\<close> can give: a number, or one of the objects that the
  summary inherits from \<^verbatim>\<open>Object.prototype\<close> (named by the inherited property).
\<close>

datatype jsval = VNum jsnum | VObj jsstring

datatype jsprim = PNum jsnum | PStr jsstring

definition ownProperty :: "LogSummaryForAdvice \<Rightarrow> jsstring \<Rightarrow> nat option" where
  "ownProperty summary key =
     (if key = ascii ''goodThoughts'' then Some (goodThoughts summary)
      else if key = ascii ''badThoughts'' then Some (badThoughts summary)
      else if key = ascii ''goodActions'' then Some (goodActions summary)
      else if key = ascii ''badActions'' then Some (badActions summary)
      else if key = ascii ''goodWordsCount'' then Some (goodWordsCount summary)
      else if key = ascii ''badWordsCount'' then Some (badWordsCount summary)
      else if key = ascii ''happyEvents'' then Some (happyEvents summary)
      else if key = ascii ''toughEvents'' then Some (toughEvents summary)
      else None)"

text \<open>
  The summary is a plain object, so its prototype is \<^verbatim>\<open>Object.prototype\<close>, and the
  \<^verbatim>\<open>in\<close> operator of \<^verbatim>\<open>isValidKey\<close> also finds the properties inherited from it.
\<close>

definition objectPrototypeKeys :: "jsstring list" where
  "objectPrototypeKeys =
     [ascii ''constructor'', ascii ''hasOwnProperty'', ascii ''isPrototypeOf'',
      ascii ''propertyIsEnumerable'', ascii ''toLocaleString'', ascii ''toString'',
      ascii ''valueOf'', ascii ''__proto__'', ascii ''__defineGetter__'',
      ascii ''__defineSetter__'', ascii ''__lookupGetter__'', ascii ''__lookupSetter__'']"

text \<open>
  \<open>lookupProperty summary key\<close> is \<open>None\<close> when \<^verbatim>\<open>key in summary\<close> is false, and
  otherwise holds \<^verbatim>\<open>summary[key]\<close>.
\<close>

definition lookupProperty :: "LogSummaryForAdvice \<Rightarrow> jsstring \<Rightarrow> jsval option" where
  "lookupProperty summary key =
     (case ownProperty summary key of
        Some n \<Rightarrow> Some (VNum (Fin (of_nat n)))
      | None \<Rightarrow> if key \<in> set objectPrototypeKeys then Some (VObj key) else None)"

definition isValidKey :: "LogSummaryForAdvice \<Rightarrow> jsstring \<Rightarrow> bool" where
  "isValidKey summary key \<longleftrightarrow> lookupProperty summary key \<noteq> None"

text \<open>
  ToPrimitive: a number is itself; an inherited object has no primitive
  \<^verbatim>\<open>valueOf\<close>, so it becomes its \<^verbatim>\<open>toString()\<close>: the source text of a built-in
  function as the engines print it, and \<^verbatim>\<open>[object Object]\<close> for the prototype
  object that \<^verbatim>\<open>__proto__\<close> returns.
\<close>

definition toPrimitive :: "jsval \<Rightarrow> jsprim" where
  "toPrimitive v =
     (case v of
        VNum n \<Rightarrow> PNum n
      | VObj key \<Rightarrow>
          if key = ascii ''__proto__'' then PStr (ascii ''[object Object]'')
          else PStr (ascii ''function '' @
                     (if key = ascii ''constructor'' then ascii ''Object'' else key) @
                     ascii ''() { [native code] }''))"

definition toNumber :: "jsprim \<Rightarrow> jsnum" where
  "toNumber p = (case p of PNum n \<Rightarrow> n | PStr s \<Rightarrow> Number s)"

text \<open>Number::lessThan; \<open>None\<close> is the result \<^verbatim>\<open>undefined\<close> (an operand is NaN).\<close>

fun numLessThan :: "jsnum \<Rightarrow> jsnum \<Rightarrow> bool option" where
  "numLessThan NaN y = None"
| "numLessThan x NaN = None"
| "numLessThan PosInf y = Some False"
| "numLessThan x PosInf = Some True"
| "numLessThan x NegInf = Some False"
| "numLessThan NegInf y = Some True"
| "numLessThan (Fin a) (Fin b) = Some (a < b)"

fun numEqual :: "jsnum \<Rightarrow> jsnum \<Rightarrow> bool" where
  "numEqual NaN y = False"
| "numEqual x NaN = False"
| "numEqual x y = (x = y)"

text \<open>Strings compare by code units, a proper prefix being smaller.\<close>

fun strLessThan :: "jsstring \<Rightarrow> jsstring \<Rightarrow> bool" where
  "strLessThan [] [] = False"
| "strLessThan [] (y # ys) = True"
| "strLessThan (x # xs) [] = False"
| "strLessThan (x # xs) (y # ys) = (x < y \<or> (x = y \<and> strLessThan xs ys))"

text \<open>The abstract relational comparison IsLessThan, and the four operators built on it.\<close>

definition isLessThan :: "jsval \<Rightarrow> jsval \<Rightarrow> bool option" where
  "isLessThan x y =
     (case (toPrimitive x, toPrimitive y) of
        (PStr a, PStr b) \<Rightarrow> Some (strLessThan a b)
      | (px, py) \<Rightarrow> numLessThan (toNumber px) (toNumber py))"

definition js_gt :: "jsval \<Rightarrow> jsval \<Rightarrow> bool" where
  "js_gt x y \<longleftrightarrow> isLessThan y x = Some True"

definition js_lt :: "jsval \<Rightarrow> jsval \<Rightarrow> bool" where
  "js_lt x y \<longleftrightarrow> isLessThan x y = Some True"

definition js_ge :: "jsval \<Rightarrow> jsval \<Rightarrow> bool" where
  "js_ge x y \<longleftrightarrow> isLessThan x y = Some False"

definition js_le :: "jsval \<Rightarrow> jsval \<Rightarrow> bool" where
  "js_le x y \<longleftrightarrow> isLessThan y x = Some False"

text \<open>
  Loose equality \<^verbatim>\<open>==\<close>: numbers by value, objects by identity, a number and an
  object through the object's primitive.
\<close>

definition js_eq :: "jsval \<Rightarrow> jsval \<Rightarrow> bool" where
  "js_eq x y =
     (case (x, y) of
        (VNum a, VNum b) \<Rightarrow> numEqual a b
      | (VObj a, VObj b) \<Rightarrow> a = b
      | (VNum a, VObj b) \<Rightarrow> numEqual a (toNumber (toPrimitive (VObj b)))
      | (VObj a, VNum b) \<Rightarrow> numEqual (toNumber (toPrimitive (VObj a))) b)"

text \<open>
  \<^verbatim>\<open>evaluateCriteria\<close> (App.tsx, lines 546 to 585). The parts are the pieces between
  single space characters, each trimmed; the right operand is a number when
  \<^verbatim>\<open>Number\<close> does not give NaN, and a property of the summary otherwise.
\<close>

definition evaluateCriteria :: "jsstring \<Rightarrow> LogSummaryForAdvice \<Rightarrow> bool" where
  "evaluateCriteria criteria summary =
     (if criteria = ascii ''ALWAYS_MATCH'' \<or> criteria = [] then True
      else
        (case map trim (splitOn 0x20 criteria) of
           [leftOperandKey, operator, rightOperandRaw] \<Rightarrow>
             (case lookupProperty summary leftOperandKey of
                None \<Rightarrow> False
              | Some leftValue \<Rightarrow>
                  (case (if \<not> isNaN (Number rightOperandRaw)
                         then Some (VNum (Number rightOperandRaw))
                         else lookupProperty summary rightOperandRaw) of
                     None \<Rightarrow> False
                   | Some rightValue \<Rightarrow>
                       if operator = ascii ''>'' then js_gt leftValue rightValue
                       else if operator = ascii ''<'' then js_lt leftValue rightValue
                       else if operator = ascii ''>='' then js_ge leftValue rightValue
                       else if operator = ascii ''<='' then js_le leftValue rightValue
                       else if operator = ascii ''=='' then js_eq leftValue rightValue
                       else False))
         | _ \<Rightarrow> False))"

section \<open>The advice records and their loading\<close>

text \<open>\<^verbatim>\<open>interface AdviceItem\<close>; the fields \<^verbatim>\<open>type\<close> and \<^verbatim>\<open>text\<close> are prefixed.\<close>

record AdviceItem =
  item_type :: jsstring
  subtype :: jsstring
  item_text :: jsstring
  criteria :: jsstring

text \<open>
  \<^verbatim>\<open>parseCsvRow\<close> (lines 487 to 504). The loop runs over the code units of the row
  with the fields found so far, the current field and the quote flag; a double quote
  only flips the flag and is never copied.
\<close>

fun parseCsvLoop :: "jsstring \<Rightarrow> jsstring list \<Rightarrow> jsstring \<Rightarrow> bool \<Rightarrow> jsstring list" where
  "parseCsvLoop [] result current inQuotes = result @ [trim current]"
| "parseCsvLoop (char # row) result current inQuotes =
     (if char = 0x22 then parseCsvLoop row result current (\<not> inQuotes)
      else if char = 0x2C \<and> \<not> inQuotes then parseCsvLoop row (result @ [trim current]) [] inQuotes
      else parseCsvLoop row result (current @ [char]) inQuotes)"

text \<open>\<^verbatim>\<open>val.replace(/^"|"$/g, '')\<close>: one double quote off the start, one off the end.\<close>

definition stripQuotes :: "jsstring \<Rightarrow> jsstring" where
  "stripQuotes val =
     (let v1 = (case val of [] \<Rightarrow> [] | c # cs \<Rightarrow> if c = 0x22 then cs else val)
      in if v1 \<noteq> [] \<and> last v1 = 0x22 then butlast v1 else v1)"

definition parseCsvRow :: "jsstring \<Rightarrow> jsstring list" where
  "parseCsvRow row = map stripQuotes (parseCsvLoop row [] [] False)"

text \<open>\<^verbatim>\<open>csvText.split(/\r?\n/)\<close>: a line ends at LF, or at CR LF.\<close>

fun splitLines :: "jsstring \<Rightarrow> jsstring list" where
  "splitLines [] = [[]]"
| "splitLines [c] = (if c = 0x0A then [[], []] else [[c]])"
| "splitLines (c # d # cs) =
     (if c = 0x0A then [] # splitLines (d # cs)
      else if c = 0x0D \<and> d = 0x0A then [] # splitLines cs
      else (case splitLines (d # cs) of [] \<Rightarrow> [[c]] | p # ps \<Rightarrow> (c # p) # ps))"

text \<open>
  The body of the loop over the rows (lines 526 to 532): a blank row is skipped; the
  first four fields are destructured, a missing one being \<^verbatim>\<open>undefined\<close>; the row is
  kept when all four are truthy, that is present and not empty.
\<close>

definition parseAdviceRow :: "jsstring \<Rightarrow> AdviceItem option" where
  "parseAdviceRow row =
     (if trim row = [] then None
      else (case parseCsvRow row of
              ty # st # tx # cr # _ \<Rightarrow>
                if ty \<noteq> [] \<and> st \<noteq> [] \<and> tx \<noteq> [] \<and> cr \<noteq> []
                then Some \<lparr>item_type = ty, subtype = st, item_text = tx, criteria = trim cr\<rparr>
                else None
            | _ \<Rightarrow> None))"

definition parseAdviceCsv :: "jsstring \<Rightarrow> AdviceItem list" where
  "parseAdviceCsv csvText = List.map_filter parseAdviceRow (drop 1 (splitLines csvText))"

text \<open>
  \<^verbatim>\<open>fetchAndParseAdviceData\<close> (lines 507 to 544) for one caller at a time. The module
  variable \<^verbatim>\<open>allAdvice\<close> is the state (\<open>None\<close> is \<^verbatim>\<open>null\<close>); the outcome of the
  HTTP request is an input. A rejected \<^verbatim>\<open>fetch\<close> and a response that is not
  \<^verbatim>\<open>ok\<close> both reach the \<^verbatim>\<open>catch\<close>, which resets the cache and throws again.
  An array, empty or not, is truthy, so a loaded cache is never fetched again.
\<close>

datatype fetch_outcome = FetchRejected | ResponseNotOk | ResponseText jsstring

datatype exn = FetchError | TypeError

definition fetchAndParseAdviceData ::
    "AdviceItem list option \<Rightarrow> fetch_outcome \<Rightarrow> (exn + unit) \<times> AdviceItem list option" where
  "fetchAndParseAdviceData allAdvice outcome =
     (case allAdvice of
        Some records \<Rightarrow> (Inr (), allAdvice)
      | None \<Rightarrow>
          (case outcome of
             ResponseText csvText \<Rightarrow> (Inr (), Some (parseAdviceCsv csvText))
           | _ \<Rightarrow> (Inl FetchError, None)))"

section \<open>Selecting records\<close>

text \<open>
  \<^verbatim>\<open>Math.random()\<close> is modelled by the sequence of its successive results, each call
  taking the head. \<^verbatim>\<open>pickRandom\<close> (line 481) reads
  \<^verbatim>\<open>arr[Math.floor(Math.random() * arr.length)]\<close>; an index outside the array gives
  \<^verbatim>\<open>undefined\<close>, here \<open>None\<close>. The product is taken exactly; which index a draw
  selects plays no role in what follows, only that a draw in \<open>[0, 1)\<close> selects one.
\<close>

type_synonym rng = "nat \<Rightarrow> rat"

definition pickRandom :: "'a list \<Rightarrow> rng \<Rightarrow> 'a option \<times> rng" where
  "pickRandom arr rng =
     (let i = \<lfloor>rng 0 * of_nat (length arr)\<rfloor>
      in (if 0 \<le> i \<and> i < int (length arr) then Some (arr ! nat i) else None,
          \<lambda>n. rng (Suc n)))"

text \<open>
  The array \<^verbatim>\<open>suitable\<close> of \<^verbatim>\<open>findAndPick\<close> (lines 602 to 609). The subtype
  filter is applied when \<^verbatim>\<open>subtype\<close> is truthy: neither \<^verbatim>\<open>null\<close> nor the empty
  string.
\<close>

definition suitable ::
    "AdviceItem list \<Rightarrow> LogSummaryForAdvice \<Rightarrow> jsstring \<Rightarrow> jsstring option \<Rightarrow> AdviceItem list" where
  "suitable allAdvice logSummary ty st =
     (let pool = filter (\<lambda>item. item_type item = ty) allAdvice;
          pool' = (case st of
                     None \<Rightarrow> pool
                   | Some s \<Rightarrow> if s \<noteq> [] then filter (\<lambda>item. subtype item = s) pool else pool)
      in filter (\<lambda>item. evaluateCriteria (criteria item) logSummary) pool')"

definition findAndPick ::
    "AdviceItem list \<Rightarrow> LogSummaryForAdvice \<Rightarrow> jsstring \<Rightarrow> jsstring option \<Rightarrow> rng
       \<Rightarrow> AdviceItem option \<times> rng" where
  "findAndPick allAdvice logSummary ty st rng =
     (let pool = suitable allAdvice logSummary ty st
      in if length pool > 0 then pickRandom pool rng else (None, rng))"

section \<open>Composing the advice\<close>

text \<open>
  The fixed Korean texts of \<^verbatim>\<open>generateDetailedAdvice\<close>, as UTF-16 code units: the
  message of line 594 (advice data could not be loaded), of line 599 (nothing logged),
  of line 672 (an error occurred while generating), the headings of lines 620, 633 and
  637 (each ending in a line feed), the encouragement sentence of line 626 (ending in
  two line feeds), and the markers of a weekly and a monthly period label.
\<close>

definition MSG_DATA_UNAVAILABLE :: jsstring where
  "MSG_DATA_UNAVAILABLE =
     [0xC870, 0xC5B8, 0x0020, 0xB370, 0xC774, 0xD130, 0xB97C, 0x0020, 0xBD88, 0xB7EC,
      0xC624, 0xC9C0, 0x0020, 0xBABB, 0xD588, 0xC2B5, 0xB2C8, 0xB2E4, 0x002E, 0x0020,
      0xC778, 0xD130, 0xB137, 0x0020, 0xC5F0, 0xACB0, 0xC744, 0x0020, 0xD655, 0xC778,
      0xD558, 0xAC70, 0xB098, 0x0020, 0xAD00, 0xB9AC, 0xC790, 0xC5D0, 0xAC8C, 0x0020,
      0xBB38, 0xC758, 0xD558, 0xC138, 0xC694, 0x002E]"

definition MSG_NO_ACTIVITY :: jsstring where
  "MSG_NO_ACTIVITY =
     [0xAE30, 0xB85D, 0xC774, 0x0020, 0xC5C6, 0xC2B5, 0xB2C8, 0xB2E4, 0x002E, 0x0020,
      0xC790, 0xC2E0, 0xC758, 0x0020, 0xAE30, 0xC6B4, 0xC744, 0x0020, 0xAE30, 0xB85D,
      0xD558, 0xACE0, 0x0020, 0xB9DE, 0xCDA4, 0x0020, 0xC870, 0xC5B8, 0xC744, 0x0020,
      0xBC1B, 0xC544, 0xBCF4, 0xC138, 0xC694, 0x002E]"

definition MSG_GENERATION_FAILED :: jsstring where
  "MSG_GENERATION_FAILED =
     [0xC870, 0xC5B8, 0xC744, 0x0020, 0xC0DD, 0xC131, 0xD558, 0xB294, 0x0020, 0xC911,
      0x0020, 0xC624, 0xB958, 0xAC00, 0x0020, 0xBC1C, 0xC0DD, 0xD588, 0xC2B5, 0xB2C8,
      0xB2E4, 0x002E, 0x0020, 0xC7A0, 0xC2DC, 0x0020, 0xD6C4, 0x0020, 0xB2E4, 0xC2DC,
      0x0020, 0xC2DC, 0xB3C4, 0xD574, 0xC8FC, 0xC138, 0xC694, 0x002E]"

definition STRENGTH_HEADING :: jsstring where
  "STRENGTH_HEADING =
     [0x2728, 0x0020, 0x002A, 0x002A, 0xB2F9, 0xC2E0, 0xC774, 0x0020, 0xC815, 0xB9D0,
      0x0020, 0xC798, 0xD558, 0xACE0, 0x0020, 0xC788, 0xB294, 0x0020, 0xAC83, 0xB4E4,
      0x003A, 0x002A, 0x002A, 0x000A]"

definition STRENGTH_ENCOURAGEMENT :: jsstring where
  "STRENGTH_ENCOURAGEMENT =
     [0xAFB8, 0xC900, 0xD788, 0x0020, 0xAE30, 0xB85D, 0xD558, 0xB294, 0x0020, 0xB2F9,
      0xC2E0, 0xC758, 0x0020, 0xB178, 0xB825, 0xC744, 0x0020, 0xC751, 0xC6D0, 0xD569,
      0xB2C8, 0xB2E4, 0x0021, 0x000A, 0x000A]"

definition GROWTH_HEADING :: jsstring where
  "GROWTH_HEADING =
     [0x2601, 0xFE0F, 0x0020, 0x002A, 0x002A, 0xC6B0, 0xB9AC, 0x0020, 0xD568, 0xAED8,
      0x0020, 0xCC44, 0xC6CC, 0xB098, 0xAC08, 0x0020, 0xBD80, 0xBD84, 0x003A, 0x002A,
      0x002A, 0x000A]"

definition TIPS_HEADING :: jsstring where
  "TIPS_HEADING =
     [0xD83C, 0xDF31, 0x0020, 0x002A, 0x002A, 0xB2F9, 0xC2E0, 0xC744, 0x0020, 0xC704,
      0xD55C, 0x0020, 0xB530, 0xB73B, 0xD558, 0xACE0, 0x0020, 0xC2E4, 0xCC9C, 0x0020,
      0xAC00, 0xB2A5, 0xD55C, 0x0020, 0xC870, 0xC5B8, 0x003A, 0x002A, 0x002A, 0x000A]"

definition WEEK_MARKER :: jsstring where
  "WEEK_MARKER =
     [0xC8FC]"

definition MONTH_MARKER :: jsstring where
  "MONTH_MARKER =
     [0xC6D4]"

text \<open>
  \<^verbatim>\<open>text.replace(pattern, replacement)\<close> with a string pattern replaces the first
  occurrence, and expands in the replacement \<^verbatim>\<open>$$\<close>, \<^verbatim>\<open>$&\<close>, the text before the
  match and the text after it (GetSubstitution without captures).
\<close>

fun findFirst :: "jsstring \<Rightarrow> jsstring \<Rightarrow> jsstring \<Rightarrow> (jsstring \<times> jsstring) option" where
  "findFirst pat pre [] = (if pat = [] then Some (pre, []) else None)"
| "findFirst pat pre (c # cs) =
     (if startsWith (c # cs) pat then Some (pre, drop (length pat) (c # cs))
      else findFirst pat (pre @ [c]) cs)"

fun getSubstitution :: "jsstring \<Rightarrow> jsstring \<Rightarrow> jsstring \<Rightarrow> jsstring \<Rightarrow> jsstring" where
  "getSubstitution matched pre post [] = []"
| "getSubstitution matched pre post [c] = [c]"
| "getSubstitution matched pre post (c # d # r) =
     (if c = 0x24 \<and> d = 0x24 then 0x24 # getSubstitution matched pre post r
      else if c = 0x24 \<and> d = 0x26 then matched @ getSubstitution matched pre post r
      else if c = 0x24 \<and> d = 0x60 then pre @ getSubstitution matched pre post r
      else if c = 0x24 \<and> d = 0x27 then post @ getSubstitution matched pre post r
      else c # getSubstitution matched pre post (d # r))"

definition replaceFirst :: "jsstring \<Rightarrow> jsstring \<Rightarrow> jsstring \<Rightarrow> jsstring" where
  "replaceFirst pat replacement s =
     (case findFirst pat [] s of
        None \<Rightarrow> s
      | Some (pre, post) \<Rightarrow> pre @ getSubstitution pat pre post replacement @ post)"

text \<open>
  \<^verbatim>\<open>advice.replace(/{name}/g, String(n))\<close>: every occurrence of the literal pattern,
  left to right and without overlap. The replacement is a string of digits, in which
  nothing is expanded.
\<close>

function replaceAll :: "jsstring \<Rightarrow> jsstring \<Rightarrow> jsstring \<Rightarrow> jsstring" where
  "replaceAll pat replacement [] = []"
| "replaceAll pat replacement (c # cs) =
     (if pat \<noteq> [] \<and> startsWith (c # cs) pat
      then replacement @ replaceAll pat replacement (drop (length pat) (c # cs))
      else c # replaceAll pat replacement cs)"
  by pat_completeness auto
termination
  by (relation "measure (\<lambda>(pat, replacement, s). length s)") auto

text \<open>The period type of lines 611 to 613.\<close>

definition periodType :: "jsstring \<Rightarrow> jsstring" where
  "periodType periodLabel =
     (if includes_str periodLabel WEEK_MARKER then ascii ''weekly''
      else if includes_str periodLabel MONTH_MARKER then ascii ''monthly''
      else ascii ''daily'')"

text \<open>
  The sections are the runs of statements that append to \<^verbatim>\<open>advice\<close>; each takes
  the random sequence as the calls before it left it, and gives back what it appended.
  The intro (lines 617 and 618):
\<close>

definition introSection ::
    "AdviceItem list \<Rightarrow> LogSummaryForAdvice \<Rightarrow> jsstring \<Rightarrow> rng \<Rightarrow> jsstring \<times> rng" where
  "introSection allAdvice logSummary periodLabel rng =
     (case findAndPick allAdvice logSummary (ascii ''intro'') (Some (periodType periodLabel)) rng of
        (Some intro, rng1) \<Rightarrow>
          (replaceFirst (ascii ''{periodLabel}'') periodLabel (item_text intro) @ [0x0A, 0x0A], rng1)
      | (None, rng1) \<Rightarrow>
          (case findAndPick allAdvice logSummary (ascii ''intro'') (Some (ascii ''default'')) rng1 of
             (Some intro, rng2) \<Rightarrow>
               (replaceFirst (ascii ''{periodLabel}'') periodLabel (item_text intro) @ [0x0A, 0x0A], rng2)
           | (None, rng2) \<Rightarrow> ([], rng2)))"

text \<open>The strength section (lines 620 to 627).\<close>

definition strengthSection ::
    "AdviceItem list \<Rightarrow> LogSummaryForAdvice \<Rightarrow> rng \<Rightarrow> jsstring \<times> rng" where
  "strengthSection allAdvice logSummary rng =
     (case findAndPick allAdvice logSummary (ascii ''strength'') None rng of
        (Some strength, rng1) \<Rightarrow>
          (STRENGTH_HEADING @ ascii ''1. '' @ item_text strength @ [0x0A, 0x0A], rng1)
      | (None, rng1) \<Rightarrow>
          (case findAndPick allAdvice logSummary (ascii ''strength'') (Some (ascii ''balance'')) rng1 of
             (Some fallbackStrength, rng2) \<Rightarrow>
               (STRENGTH_HEADING @ ascii ''1. '' @ item_text fallbackStrength @ [0x0A, 0x0A], rng2)
           | (None, rng2) \<Rightarrow> (STRENGTH_HEADING @ STRENGTH_ENCOURAGEMENT, rng2)))"

text \<open>The growth section (lines 629 to 635), with \<^verbatim>\<open>growthSubtype\<close>.\<close>

definition growthSection ::
    "AdviceItem list \<Rightarrow> LogSummaryForAdvice \<Rightarrow> rng \<Rightarrow> jsstring \<times> jsstring option \<times> rng" where
  "growthSection allAdvice logSummary rng =
     (case findAndPick allAdvice logSummary (ascii ''growth'') None rng of
        (Some growth, rng1) \<Rightarrow>
          (GROWTH_HEADING @ item_text growth @ [0x0A, 0x0A], Some (subtype growth), rng1)
      | (None, rng1) \<Rightarrow> ([], None, rng1))"

text \<open>\<^verbatim>\<open>tipsList.forEach\<close> (lines 651 to 653), from the index given.\<close>

fun renderTips :: "nat \<Rightarrow> jsstring list \<Rightarrow> jsstring" where
  "renderTips index [] = []"
| "renderTips index (tip # tips) =
     String (index + 1) @ ascii ''. '' @ tip @ [0x0A] @ renderTips (index + 1) tips"

text \<open>
  The tips section (lines 637 to 654). In the last resort \<^verbatim>\<open>pickRandom(fallbackTip).text\<close>
  reads a property of the result at once, which throws a TypeError on \<^verbatim>\<open>undefined\<close>.
\<close>

definition tipsSection ::
    "AdviceItem list \<Rightarrow> LogSummaryForAdvice \<Rightarrow> jsstring option \<Rightarrow> rng \<Rightarrow> exn + jsstring \<times> rng" where
  "tipsSection allAdvice logSummary growthSubtype rng =
     (let (tips1, rng1) =
            (case growthSubtype of
               None \<Rightarrow> ([], rng)
             | Some gs \<Rightarrow>
                 if gs \<noteq> [] then
                   (case findAndPick allAdvice logSummary (ascii ''tip'') (Some gs) rng of
                      (Some growthTip, r) \<Rightarrow> ([item_text growthTip], r)
                    | (None, r) \<Rightarrow> ([], r))
                 else ([], rng));
          (maintainTip, rng2) =
            findAndPick allAdvice logSummary (ascii ''tip'') (Some (ascii ''maintainStrengths'')) rng1;
          tips2 = (case maintainTip of Some t \<Rightarrow> tips1 @ [item_text t] | None \<Rightarrow> tips1)
      in if length tips2 = 0 then
           (let fallbackTip = filter (\<lambda>a. item_type a = ascii ''tip''
                                          \<and> subtype a \<noteq> ascii ''maintainStrengths'') allAdvice
            in if length fallbackTip > 0 then
                 (case pickRandom fallbackTip rng2 of
                    (Some t, rng3) \<Rightarrow>
                      Inr (TIPS_HEADING @ renderTips 0 [item_text t] @ [0x0A], rng3)
                  | (None, rng3) \<Rightarrow> Inl TypeError)
               else Inr (TIPS_HEADING @ renderTips 0 [] @ [0x0A], rng2))
         else Inr (TIPS_HEADING @ renderTips 0 tips2 @ [0x0A], rng2))"

text \<open>The closing (lines 656 and 657).\<close>

definition closingSection ::
    "AdviceItem list \<Rightarrow> LogSummaryForAdvice \<Rightarrow> rng \<Rightarrow> jsstring \<times> rng" where
  "closingSection allAdvice logSummary rng =
     (case findAndPick allAdvice logSummary (ascii ''closing'') None rng of
        (Some closing, rng1) \<Rightarrow> (item_text closing, rng1)
      | (None, rng1) \<Rightarrow> ([], rng1))"

text \<open>The final replacement of the placeholders (lines 660 to 668), in the source's order.\<close>

definition substitutePlaceholders :: "LogSummaryForAdvice \<Rightarrow> jsstring \<Rightarrow> jsstring" where
  "substitutePlaceholders logSummary advice =
     replaceAll (ascii ''{toughEvents}'') (String (toughEvents logSummary))
    (replaceAll (ascii ''{happyEvents}'') (String (happyEvents logSummary))
    (replaceAll (ascii ''{badThoughts}'') (String (badThoughts logSummary))
    (replaceAll (ascii ''{goodThoughts}'') (String (goodThoughts logSummary))
    (replaceAll (ascii ''{badActions}'') (String (badActions logSummary))
    (replaceAll (ascii ''{goodActions}'') (String (goodActions logSummary))
    (replaceAll (ascii ''{badWordsCount}'') (String (badWordsCount logSummary))
    (replaceAll (ascii ''{goodWordsCount}'') (String (goodWordsCount logSummary)) advice)))))))"

text \<open>The section pipeline of lines 611 to 668 as a whole.\<close>

definition composeAdvice ::
    "AdviceItem list \<Rightarrow> LogSummaryForAdvice \<Rightarrow> jsstring \<Rightarrow> rng \<Rightarrow> exn + jsstring" where
  "composeAdvice allAdvice logSummary periodLabel rng =
     (let (intro, rng1) = introSection allAdvice logSummary periodLabel rng;
          (strength, rng2) = strengthSection allAdvice logSummary rng1;
          (growth, growthSubtype, rng3) = growthSection allAdvice logSummary rng2
      in case tipsSection allAdvice logSummary growthSubtype rng3 of
           Inl e \<Rightarrow> Inl e
         | Inr (tips, rng4) \<Rightarrow>
             (let (closing, rng5) = closingSection allAdvice logSummary rng4
              in Inr (substitutePlaceholders logSummary
                        (intro @ strength @ growth @ tips @ closing))))"

text \<open>\<^verbatim>\<open>Object.values(logSummary).reduce((sum, val) => sum + (val || 0), 0)\<close> (line 597).\<close>

definition totalActions :: "LogSummaryForAdvice \<Rightarrow> nat" where
  "totalActions logSummary =
     foldl (\<lambda>sum val. sum + val) 0
       [goodThoughts logSummary, badThoughts logSummary, goodActions logSummary,
        badActions logSummary, goodWordsCount logSummary, badWordsCount logSummary,
        happyEvents logSummary, toughEvents logSummary]"

text \<open>
  The body of the \<^verbatim>\<open>try\<close> block of \<^verbatim>\<open>generateDetailedAdvice\<close> (lines 590 to
  668): \<open>Inl\<close> is an exception that leaves the block, \<open>Inr\<close> a returned string. The
  second component is \<^verbatim>\<open>allAdvice\<close> afterwards. A \<^verbatim>\<open>null\<close> cache is loaded
  first, and a failed load throws out of the \<^verbatim>\<open>await\<close>.
\<close>

definition adviceBody ::
    "AdviceItem list option \<Rightarrow> fetch_outcome \<Rightarrow> rng \<Rightarrow> LogSummaryForAdvice option \<Rightarrow> jsstring
       \<Rightarrow> (exn + jsstring) \<times> AdviceItem list option" where
  "adviceBody allAdvice outcome rng logSummary periodLabel =
     (let (awaited, allAdvice') =
            (if allAdvice = None then fetchAndParseAdviceData allAdvice outcome
             else (Inr (), allAdvice))
      in case awaited of
           Inl e \<Rightarrow> (Inl e, allAdvice')
         | Inr _ \<Rightarrow>
             (case (allAdvice', logSummary) of
                (Some records, Some summary) \<Rightarrow>
                  if totalActions summary = 0 then (Inr MSG_NO_ACTIVITY, allAdvice')
                  else (composeAdvice records summary periodLabel rng, allAdvice')
              | _ \<Rightarrow> (Inr MSG_DATA_UNAVAILABLE, allAdvice')))"

text \<open>
  \<^verbatim>\<open>generateDetailedAdvice\<close> (lines 588 to 674): the \<^verbatim>\<open>catch\<close> turns every
  exception of the body into the fixed message of line 672. The result is the string
  the promise resolves to, with the cache as the call leaves it.
\<close>

definition generateDetailedAdvice ::
    "AdviceItem list option \<Rightarrow> fetch_outcome \<Rightarrow> rng \<Rightarrow> LogSummaryForAdvice option \<Rightarrow> jsstring
       \<Rightarrow> jsstring \<times> AdviceItem list option" where
  "generateDetailedAdvice allAdvice outcome rng logSummary periodLabel =
     (case adviceBody allAdvice outcome rng logSummary periodLabel of
        (Inl e, allAdvice') \<Rightarrow> (MSG_GENERATION_FAILED, allAdvice')
      | (Inr advice, allAdvice') \<Rightarrow> (advice, allAdvice'))"

section \<open>Notions of the specification\<close>

text \<open>
  The specification speaks of splitting a criteria string on whitespace into tokens.
  \<open>whitespaceTokens\<close> follows these words and not the source: the tokens are the
  maximal runs of characters that are not whitespace.
\<close>

fun tokensFrom :: "jsstring \<Rightarrow> jsstring \<Rightarrow> jsstring list" where
  "tokensFrom current [] = (if current = [] then [] else [current])"
| "tokensFrom current (c # cs) =
     (if isWhiteSpace c then (if current = [] then tokensFrom [] cs else current # tokensFrom [] cs)
      else tokensFrom (current @ [c]) cs)"

definition whitespaceTokens :: "jsstring \<Rightarrow> jsstring list" where
  "whitespaceTokens s = tokensFrom [] s"

text \<open>The eight field names of a log summary, as the specification lists them.\<close>

definition logSummaryFieldNames :: "jsstring list" where
  "logSummaryFieldNames =
     [ascii ''goodThoughts'', ascii ''badThoughts'', ascii ''goodActions'', ascii ''badActions'',
      ascii ''goodWordsCount'', ascii ''badWordsCount'', ascii ''happyEvents'', ascii ''toughEvents'']"

text \<open>
  The pool of the record selector in the specification's words: the records whose type
  is the given one and, when a subtype is given, whose subtype is the given one; and
  those of them whose criteria evaluates true against the summary.
\<close>

definition exactMatchPool :: "AdviceItem list \<Rightarrow> jsstring \<Rightarrow> jsstring option \<Rightarrow> AdviceItem list" where
  "exactMatchPool allAdvice ty st =
     filter (\<lambda>item. item_type item = ty \<and> (case st of None \<Rightarrow> True | Some s \<Rightarrow> subtype item = s))
       allAdvice"

definition eligiblePool ::
    "AdviceItem list \<Rightarrow> LogSummaryForAdvice \<Rightarrow> jsstring \<Rightarrow> jsstring option \<Rightarrow> AdviceItem list" where
  "eligiblePool allAdvice logSummary ty st =
     filter (\<lambda>item. evaluateCriteria (criteria item) logSummary) (exactMatchPool allAdvice ty st)"

text \<open>
  The summary of the specification's end-to-end example, and a summary with nothing logged.
\<close>

definition exampleSummary :: LogSummaryForAdvice where
  "exampleSummary =
     \<lparr>goodThoughts = 3, badThoughts = 0, goodActions = 2, badActions = 0,
      goodWordsCount = 1, badWordsCount = 0, happyEvents = 1, toughEvents = 0\<rparr>"

definition emptySummary :: LogSummaryForAdvice where
  "emptySummary =
     \<lparr>goodThoughts = 0, badThoughts = 0, goodActions = 0, badActions = 0,
      goodWordsCount = 0, badWordsCount = 0, happyEvents = 0, toughEvents = 0\<rparr>"

text \<open>
  What the loop of \<^verbatim>\<open>parseCsvRow\<close> leaves in a field: a trimmed string without a
  double quote.
\<close>

definition cleanField :: "jsstring \<Rightarrow> bool" where
  "cleanField f \<longleftrightarrow> 0x22 \<notin> set f \<and> trim f = f"

text \<open>Draws of \<^verbatim>\<open>Math.random()\<close>: each one is in \<open>[0, 1)\<close>.\<close>

definition unitDraws :: "rng \<Rightarrow> bool" where
  "unitDraws rng \<longleftrightarrow> (\<forall>n. 0 \<le> rng n \<and> rng n < 1)"

text \<open>Two records and a sheet for the examples below.\<close>

definition tipRecord :: AdviceItem where
  "tipRecord =
     \<lparr>item_type = ascii ''tip'', subtype = ascii ''rest'', item_text = ascii ''Sleep early'',
      criteria = ascii ''ALWAYS_MATCH''\<rparr>"

definition strengthRecord :: AdviceItem where
  "strengthRecord =
     \<lparr>item_type = ascii ''strength'', subtype = ascii ''balance'',
      item_text = ascii ''You kept {goodActions} good actions'',
      criteria = ascii ''goodThoughts > 2''\<rparr>"

definition exampleCsv :: jsstring where
  "exampleCsv =
     ascii ''type,subtype,text,criteria'' @ [0x0D, 0x0A] @
     ascii ''tip,rest,Sleep early,ALWAYS_MATCH'' @ [0x0A] @
     ascii ''tip,rest,No criteria here'' @ [0x0A]"

section \<open>Properties of strings and numbers\<close>

lemma splitOn_not_Nil: "splitOn c s \<noteq> []"
  by (induction s) (auto split: list.splits)

lemma splitOn_no_sep: "c \<notin> set a \<Longrightarrow> splitOn c a = [a]"
  by (induction a) auto

lemma splitOn_append: "c \<notin> set a \<Longrightarrow> splitOn c (a @ c # r) = a # splitOn c r"
  by (induction a) auto

lemma splitOn_three:
  assumes "c \<notin> set x" "c \<notin> set y" "c \<notin> set z"
  shows "splitOn c (x @ c # y @ c # z) = [x, y, z]"
  using assms by (simp add: splitOn_append splitOn_no_sep)

lemma dropWhile_none: "\<forall>c\<in>set s. \<not> P c \<Longrightarrow> dropWhile P s = s"
  by (cases s) auto

lemma trim_no_whitespace: "\<forall>c\<in>set s. \<not> isWhiteSpace c \<Longrightarrow> trim s = s"
  by (simp add: trim_def dropWhile_none)

lemma space_isWhiteSpace: "isWhiteSpace 0x20"
  by (simp add: isWhiteSpace_def)

lemma splitOn_single: "splitOn c s = [p] \<Longrightarrow> s = p"
proof (induction s arbitrary: p)
  case Nil
  then show ?case by simp
next
  case (Cons x xs)
  then show ?case using splitOn_not_Nil [of c xs]
    by (auto split: if_splits list.splits)
qed

lemma splitOn_first:
  "splitOn c s = p # q # qs \<Longrightarrow> \<exists>r. s = p @ c # r \<and> splitOn c r = q # qs"
proof (induction s arbitrary: p)
  case Nil
  then show ?case by simp
next
  case (Cons x xs)
  show ?case
  proof (cases "x = c")
    case True
    then show ?thesis using Cons.prems by auto
  next
    case False
    then obtain p' where "splitOn c xs = p' # q # qs" and "p = x # p'"
      using Cons.prems by (auto split: list.splits)
    then show ?thesis using Cons.IH by auto
  qed
qed

lemma splitOn_join3:
  assumes "splitOn c s = [p0, p1, p2]"
  shows "s = p0 @ c # p1 @ c # p2"
proof -
  obtain r where r: "s = p0 @ c # r" "splitOn c r = [p1, p2]"
    using splitOn_first [OF assms] by blast
  obtain r' where r': "r = p1 @ c # r'" "splitOn c r' = [p2]"
    using splitOn_first [OF r(2)] by blast
  show ?thesis using r(1) r'(1) splitOn_single [OF r'(2)] by simp
qed

lemma dropWhile_fixed: "dropWhile P (dropWhile P s) = dropWhile P s"
  by (induction s) auto

lemma trim_first: "trim s \<noteq> [] \<Longrightarrow> \<not> isWhiteSpace (hd (trim s))"
proof -
  assume ne: "trim s \<noteq> []"
  let ?t = "dropWhile isWhiteSpace s"
  let ?u = "dropWhile isWhiteSpace (rev ?t)"
  have u: "?u \<noteq> []" using ne by (simp add: trim_def)
  then have t: "?t \<noteq> []" by (metis dropWhile.simps(1) rev.simps(1))
  have "hd (trim s) = last ?u" using u by (simp add: trim_def hd_rev)
  also have "last ?u = last (rev ?t)"
    using u by (metis takeWhile_dropWhile_id last_appendR)
  also have "\<dots> = hd ?t" using t by (simp add: last_rev)
  finally show ?thesis using t by (metis hd_dropWhile)
qed

lemma trim_last: "trim s \<noteq> [] \<Longrightarrow> \<not> isWhiteSpace (last (trim s))"
proof -
  assume ne: "trim s \<noteq> []"
  let ?t = "dropWhile isWhiteSpace s"
  let ?u = "dropWhile isWhiteSpace (rev ?t)"
  have u: "?u \<noteq> []" using ne by (simp add: trim_def)
  have "last (trim s) = hd ?u" using u by (simp add: trim_def last_rev)
  then show ?thesis using u by (metis hd_dropWhile)
qed

lemma trim_idem: "trim (trim s) = trim s"
proof (cases "trim s = []")
  case True
  have "trim [] = []" by (simp add: trim_def)
  then show ?thesis by (simp only: True)
next
  case False
  let ?v = "trim s"
  have 1: "dropWhile isWhiteSpace ?v = ?v"
    using False trim_first [of s] by (simp add: dropWhile_eq_self_iff)
  have 2: "dropWhile isWhiteSpace (rev ?v) = rev ?v"
    using False trim_last [of s] by (simp add: dropWhile_eq_self_iff hd_rev)
  have "trim ?v = rev (dropWhile isWhiteSpace (rev (dropWhile isWhiteSpace ?v)))"
    by (simp add: trim_def)
  then show ?thesis by (simp add: 1 2)
qed

lemma set_trim: "set (trim s) \<subseteq> set s"
proof -
  have "set (trim s) = set (dropWhile isWhiteSpace (rev (dropWhile isWhiteSpace s)))"
    by (simp add: trim_def)
  also have "\<dots> \<subseteq> set (rev (dropWhile isWhiteSpace s))" by (rule set_dropWhileD [THEN subsetI])
  also have "\<dots> \<subseteq> set s" using set_dropWhileD by fastforce
  finally show ?thesis .
qed

lemma tokensFrom_word:
  "\<forall>x\<in>set k. \<not> isWhiteSpace x \<Longrightarrow> tokensFrom cur (k @ s) = tokensFrom (cur @ k) s"
  by (induction k arbitrary: cur) auto

lemma tokensFrom_blank:
  "\<forall>x\<in>set w. isWhiteSpace x \<Longrightarrow> tokensFrom [] (w @ s) = tokensFrom [] s"
  by (induction w) auto

lemma tokensFrom_word_blank:
  assumes "k \<noteq> []" "\<forall>x\<in>set k. \<not> isWhiteSpace x" "isWhiteSpace c"
  shows "tokensFrom [] (k @ c # s) = k # tokensFrom [] s"
  using assms by (simp add: tokensFrom_word)

lemma tokensFrom_word_end:
  assumes "k \<noteq> []" "\<forall>x\<in>set k. \<not> isWhiteSpace x"
  shows "tokensFrom [] k = [k]"
  using assms tokensFrom_word [of k "[]" "[]"] by simp

lemma trim_decomp:
  "\<exists>l t. p = l @ trim p @ t \<and> (\<forall>x\<in>set l. isWhiteSpace x) \<and> (\<forall>x\<in>set t. isWhiteSpace x)"
proof -
  let ?l = "takeWhile isWhiteSpace p"
  let ?d = "dropWhile isWhiteSpace p"
  let ?t = "rev (takeWhile isWhiteSpace (rev ?d))"
  have "rev ?d = takeWhile isWhiteSpace (rev ?d) @ dropWhile isWhiteSpace (rev ?d)" by simp
  then have "?d = rev (dropWhile isWhiteSpace (rev ?d)) @ ?t"
    by (metis rev_append rev_rev_ident)
  then have "p = ?l @ trim p @ ?t"
    by (metis takeWhile_dropWhile_id trim_def)
  moreover have "\<forall>x\<in>set ?l. isWhiteSpace x" by (auto dest: set_takeWhileD)
  moreover have "\<forall>x\<in>set ?t. isWhiteSpace x" by (auto dest: set_takeWhileD)
  ultimately show ?thesis by blast
qed

lemma tokens_of_part:
  assumes "trim p \<noteq> []" "\<forall>x\<in>set (trim p). \<not> isWhiteSpace x"
  shows "tokensFrom [] (p @ 0x20 # s) = trim p # tokensFrom [] s"
    and "tokensFrom [] p = [trim p]"
proof -
  obtain l t where p: "p = l @ trim p @ t" and l: "\<forall>x\<in>set l. isWhiteSpace x"
    and t: "\<forall>x\<in>set t. isWhiteSpace x"
    using trim_decomp by blast
  have sp: "isWhiteSpace 0x20" by (simp add: isWhiteSpace_def)
  have a: "tokensFrom [] (trim p @ t @ 0x20 # s) = trim p # tokensFrom [] s"
  proof (cases t)
    case Nil
    then show ?thesis using tokensFrom_word_blank [OF assms sp] by simp
  next
    case (Cons c cs)
    then have "isWhiteSpace c" and cs: "\<forall>x\<in>set (cs @ [0x20]). isWhiteSpace x" using t sp by auto
    then have "tokensFrom [] (trim p @ c # cs @ 0x20 # s) = trim p # tokensFrom [] ((cs @ [0x20]) @ s)"
      using tokensFrom_word_blank [OF assms, of c] by simp
    also have "\<dots> = trim p # tokensFrom [] s" using tokensFrom_blank [OF cs] by simp
    finally show ?thesis using Cons by simp
  qed
  have "tokensFrom [] (p @ 0x20 # s) = tokensFrom [] (l @ (trim p @ t @ 0x20 # s))"
    using p by (metis append_assoc)
  then show "tokensFrom [] (p @ 0x20 # s) = trim p # tokensFrom [] s"
    using tokensFrom_blank [OF l] a by simp
  have b: "tokensFrom [] (trim p @ t) = [trim p]"
  proof (cases t)
    case Nil
    then show ?thesis using tokensFrom_word_end [OF assms] by simp
  next
    case (Cons c cs)
    then have "isWhiteSpace c" and cs: "\<forall>x\<in>set cs. isWhiteSpace x" using t by auto
    then have "tokensFrom [] (trim p @ c # cs) = trim p # tokensFrom [] (cs @ [])"
      using tokensFrom_word_blank [OF assms, of c] by simp
    also have "\<dots> = [trim p]" using tokensFrom_blank [OF cs, of "[]"] by simp
    finally show ?thesis using Cons by simp
  qed
  have "tokensFrom [] p = tokensFrom [] (l @ (trim p @ t))" using p by simp
  then show "tokensFrom [] p = [trim p]" using tokensFrom_blank [OF l] b by simp
qed


lemma trim_nonempty: "x \<in> set p \<Longrightarrow> \<not> isWhiteSpace x \<Longrightarrow> trim p \<noteq> []"
proof
  assume x: "x \<in> set p" "\<not> isWhiteSpace x" and e: "trim p = []"
  obtain l t where "p = l @ trim p @ t" "\<forall>x\<in>set l. isWhiteSpace x" "\<forall>x\<in>set t. isWhiteSpace x"
    using trim_decomp by blast
  then have "\<forall>x\<in>set p. isWhiteSpace x" using e by (metis Un_iff append_Nil set_append)
  then show False using x by blast
qed

lemma isWhiteSpace_unat:
  "isWhiteSpace c \<longleftrightarrow>
     unat c \<in> {9, 10, 11, 12, 13, 32, 160, 5760, 8232, 8233, 8239, 8287, 12288, 65279}
     \<or> (8192 \<le> unat c \<and> unat c \<le> 8202)"
  by (auto simp: isWhiteSpace_def word_le_nat_alt word_unat_eq_iff)

lemma isDigitIn_not_whitespace: "isDigitIn b c \<Longrightarrow> \<not> isWhiteSpace c"
  by (auto simp: isDigitIn_def digitOf_def isWhiteSpace_unat word_le_nat_alt split: if_splits)

lemma literal_chars_not_whitespace:
  "\<not> isWhiteSpace 0x65" "\<not> isWhiteSpace 0x45" "\<not> isWhiteSpace 0x2B" "\<not> isWhiteSpace 0x2D"
  "\<not> isWhiteSpace 0x2E" "\<not> isWhiteSpace 0x30" "\<not> isWhiteSpace 0x78" "\<not> isWhiteSpace 0x58"
  "\<not> isWhiteSpace 0x6F" "\<not> isWhiteSpace 0x4F" "\<not> isWhiteSpace 0x62" "\<not> isWhiteSpace 0x42"
  by (simp_all add: isWhiteSpace_def)

lemma parseExponent_chars: "parseExponent r = Some e \<Longrightarrow> \<forall>c\<in>set r. \<not> isWhiteSpace c"
  by (auto simp: parseExponent_def list_all_iff literal_chars_not_whitespace
      split: list.splits if_splits dest: isDigitIn_not_whitespace)

lemma parseUnsignedDecimal_chars:
  assumes "parseUnsignedDecimal u \<noteq> NaN"
  shows "\<forall>c\<in>set u. \<not> isWhiteSpace c"
proof (cases "u = ascii ''Infinity''")
  case True
  then show ?thesis by (simp add: ascii_def isWhiteSpace_def)
next
  case False
  let ?ip = "takeWhile (isDigitIn 10) u"
  let ?r1 = "dropWhile (isDigitIn 10) u"
  have u: "u = ?ip @ ?r1" by simp
  have ip: "\<forall>c\<in>set ?ip. \<not> isWhiteSpace c"
    by (auto dest: set_takeWhileD isDigitIn_not_whitespace)
  have "\<forall>c\<in>set ?r1. \<not> isWhiteSpace c"
  proof (cases "case ?r1 of [] \<Rightarrow> False | c # _ \<Rightarrow> c = 0x2E")
    case True
    then obtain rest where r1: "?r1 = 0x2E # rest" by (auto split: list.splits)
    let ?fp = "takeWhile (isDigitIn 10) rest"
    let ?r2 = "dropWhile (isDigitIn 10) rest"
    have "parseExponent ?r2 \<noteq> None"
      using assms False r1 by (auto simp: parseUnsignedDecimal_def Let_def split: if_splits option.splits)
    then have "\<forall>c\<in>set ?r2. \<not> isWhiteSpace c" using parseExponent_chars by blast
    moreover have "\<forall>c\<in>set ?fp. \<not> isWhiteSpace c"
      by (auto dest: set_takeWhileD isDigitIn_not_whitespace)
    moreover have "rest = ?fp @ ?r2" by simp
    ultimately have "\<forall>c\<in>set rest. \<not> isWhiteSpace c" by (metis Un_iff set_append)
    then show ?thesis using r1 by (simp add: literal_chars_not_whitespace)
  next
    case nd: False
    then have "parseExponent ?r1 \<noteq> None"
      using assms False by (auto simp: parseUnsignedDecimal_def Let_def split: if_splits option.splits)
    then show ?thesis using parseExponent_chars by blast
  qed
  then show ?thesis using u ip by (metis Un_iff set_append)
qed

lemma parseNonDecimal_chars:
  "parseNonDecimal t = Some v \<Longrightarrow> \<forall>c\<in>set t. \<not> isWhiteSpace c"
  by (auto simp: parseNonDecimal_def Let_def list_all_iff literal_chars_not_whitespace
      split: list.splits if_splits dest: isDigitIn_not_whitespace)

lemma negate_NaN: "negate x = NaN \<longleftrightarrow> x = NaN"
  by (cases x) (simp_all add: negate_def)

lemma Number_chars:
  assumes "Number t \<noteq> NaN" "trim t = t"
  shows "\<forall>c\<in>set t. \<not> isWhiteSpace c"
proof (cases t)
  case Nil
  then show ?thesis by simp
next
  case (Cons c cs)
  show ?thesis
  proof (cases "parseNonDecimal t")
    case (Some v)
    then show ?thesis by (rule parseNonDecimal_chars)
  next
    case None
    consider "c = 0x2B" | "c \<noteq> 0x2B" "c = 0x2D" | "c \<noteq> 0x2B" "c \<noteq> 0x2D" by blast
    then show ?thesis
    proof cases
      case 1
      then have "parseUnsignedDecimal cs \<noteq> NaN"
        using assms Cons None by (simp add: Number_def)
      then show ?thesis
        using parseUnsignedDecimal_chars Cons 1 by (simp add: literal_chars_not_whitespace)
    next
      case 2
      then have "parseUnsignedDecimal cs \<noteq> NaN"
        using assms Cons None by (simp add: Number_def negate_NaN)
      then show ?thesis
        using parseUnsignedDecimal_chars Cons 2 by (simp add: literal_chars_not_whitespace)
    next
      case 3
      then have "parseUnsignedDecimal t \<noteq> NaN"
        using assms Cons None by (simp add: Number_def)
      then show ?thesis using parseUnsignedDecimal_chars by blast
    qed
  qed
qed

lemma Number_empty: "Number [] = Fin 0"
  by (simp add: Number_def trim_def)

lemma Number_2: "Number (ascii ''2'') = Fin 2"
  by code_simp

lemma Number_toString: "Number (ascii ''toString'') = NaN"
  by code_simp

section \<open>Properties of the criteria evaluator\<close>

lemma ownProperty_no_whitespace:
  "ownProperty summary key = Some n \<Longrightarrow> \<forall>c\<in>set key. \<not> isWhiteSpace c"
  by (simp add: ownProperty_def ascii_def isWhiteSpace_def split: if_splits)

lemma ownProperty_fieldNames:
  "ownProperty summary key \<noteq> None \<longleftrightarrow> key \<in> set logSummaryFieldNames"
  by (simp add: ownProperty_def logSummaryFieldNames_def)

lemma always_match_no_space: "0x20 \<notin> set (ascii ''ALWAYS_MATCH'')"
  by (simp add: ascii_def)

lemma lookupProperty_key_chars:
  assumes "lookupProperty summary key \<noteq> None"
  shows "key \<noteq> [] \<and> (\<forall>c\<in>set key. \<not> isWhiteSpace c)"
proof (cases "ownProperty summary key")
  case (Some n)
  then have "\<forall>c\<in>set key. \<not> isWhiteSpace c" by (rule ownProperty_no_whitespace)
  moreover have "key \<noteq> []" using Some by (auto simp: ownProperty_def ascii_def split: if_splits)
  ultimately show ?thesis by simp
next
  case None
  then have "key \<in> set objectPrototypeKeys"
    using assms by (simp add: lookupProperty_def split: if_splits)
  then show ?thesis
    by (auto simp: objectPrototypeKeys_def ascii_def isWhiteSpace_def)
qed

lemma evaluateCriteria_parts:
  assumes "evaluateCriteria crit summary" "crit \<noteq> []" "crit \<noteq> ascii ''ALWAYS_MATCH''"
  shows "\<exists>p0 p1 p2. splitOn 0x20 crit = [p0, p1, p2]
           \<and> lookupProperty summary (trim p0) \<noteq> None
           \<and> trim p1 \<in> {ascii ''>'', ascii ''<'', ascii ''>='', ascii ''<='', ascii ''==''}
           \<and> (Number (trim p2) \<noteq> NaN \<or> lookupProperty summary (trim p2) \<noteq> None)"
proof -
  from assms obtain a b c where m: "map trim (splitOn 0x20 crit) = [a, b, c]"
    by (auto simp: evaluateCriteria_def split: list.splits)
  then obtain p0 p1 p2 where p: "splitOn 0x20 crit = [p0, p1, p2]"
    and t: "a = trim p0" "b = trim p1" "c = trim p2"
    by (auto simp: map_eq_Cons_conv)
  have "lookupProperty summary a \<noteq> None"
    using assms m by (auto simp: evaluateCriteria_def split: option.splits)
  moreover have "Number c \<noteq> NaN \<or> lookupProperty summary c \<noteq> None"
    using assms m by (auto simp: evaluateCriteria_def isNaN_def split: option.splits if_splits)
  moreover have "b \<in> {ascii ''>'', ascii ''<'', ascii ''>='', ascii ''<='', ascii ''==''}"
    using assms m by (auto simp: evaluateCriteria_def split: option.splits if_splits)
  ultimately show ?thesis using p t by (intro exI [of _ p0] exI [of _ p1] exI [of _ p2]) simp
qed

lemma operator_chars:
  "b \<in> {ascii ''>'', ascii ''<'', ascii ''>='', ascii ''<='', ascii ''==''}
     \<Longrightarrow> b \<noteq> [] \<and> (\<forall>c\<in>set b. \<not> isWhiteSpace c)"
  by (auto simp: ascii_def isWhiteSpace_def)

lemma matching_criteria_tokens:
  assumes ev: "evaluateCriteria crit summary"
    and ne: "crit \<noteq> []" "crit \<noteq> ascii ''ALWAYS_MATCH''"
    and tr: "trim crit = crit"
  shows "length (whitespaceTokens crit) = 3"
proof -
  obtain p0 p1 p2 where p: "splitOn 0x20 crit = [p0, p1, p2]"
    and k: "lookupProperty summary (trim p0) \<noteq> None"
    and o: "trim p1 \<in> {ascii ''>'', ascii ''<'', ascii ''>='', ascii ''<='', ascii ''==''}"
    and r: "Number (trim p2) \<noteq> NaN \<or> lookupProperty summary (trim p2) \<noteq> None"
    using evaluateCriteria_parts [OF ev ne] by blast
  have c: "crit = p0 @ 0x20 # p1 @ 0x20 # p2" using p by (rule splitOn_join3)
  have "\<not> isWhiteSpace (last crit)" using trim_last [of crit] tr ne(1) by simp
  moreover have "p2 = [] \<Longrightarrow> last crit = 0x20" using c by simp
  ultimately have p2: "p2 \<noteq> []" using space_isWhiteSpace by auto
  then have "last crit = last p2" using c by simp
  then have "\<not> isWhiteSpace (last p2)" using \<open>\<not> isWhiteSpace (last crit)\<close> by simp
  then have t2: "trim p2 \<noteq> []" using p2 trim_nonempty [of "last p2" p2] by simp
  have w2: "\<forall>c\<in>set (trim p2). \<not> isWhiteSpace c"
    using r Number_chars [of "trim p2"] lookupProperty_key_chars [of summary "trim p2"]
    by (auto simp: trim_idem)
  have w0: "trim p0 \<noteq> []" "\<forall>c\<in>set (trim p0). \<not> isWhiteSpace c"
    using lookupProperty_key_chars [OF k] by simp_all
  have w1: "trim p1 \<noteq> []" "\<forall>c\<in>set (trim p1). \<not> isWhiteSpace c"
    using operator_chars [OF o] by simp_all
  have "whitespaceTokens crit = tokensFrom [] (p0 @ 0x20 # (p1 @ 0x20 # p2))"
    using c by (simp add: whitespaceTokens_def)
  also have "\<dots> = trim p0 # tokensFrom [] (p1 @ 0x20 # p2)"
    using tokens_of_part(1) [OF w0] by simp
  also have "\<dots> = trim p0 # trim p1 # tokensFrom [] p2"
    using tokens_of_part(1) [OF w1] by simp
  also have "\<dots> = [trim p0, trim p1, trim p2]"
    using tokens_of_part(2) [OF t2 w2] by simp
  finally show ?thesis by simp
qed

text \<open>
  C3. For a criteria string \<open>leftKey op number\<close>, where \<open>leftKey\<close> is a field
  of the summary, the tokens hold no whitespace and \<^verbatim>\<open>Number\<close> accepts the right
  operand, the result is the comparison of the field's count with that number under the
  operator: the order and the equality of the rationals when the number is finite, with
  an infinity above or below every count; under any other operator it is false.
\<close>

theorem evaluateCriteria_numeric_comparison:
  assumes key: "ownProperty summary leftKey = Some n"
    and op: "\<forall>c\<in>set op. \<not> isWhiteSpace c"
    and raw: "\<forall>c\<in>set raw. \<not> isWhiteSpace c"
    and num: "Number raw \<noteq> NaN"
  shows "evaluateCriteria (leftKey @ 0x20 # op @ 0x20 # raw) summary =
           (if op = ascii ''>'' then
              (case Number raw of Fin q \<Rightarrow> q < of_nat n | NegInf \<Rightarrow> True | _ \<Rightarrow> False)
            else if op = ascii ''<'' then
              (case Number raw of Fin q \<Rightarrow> of_nat n < q | PosInf \<Rightarrow> True | _ \<Rightarrow> False)
            else if op = ascii ''>='' then
              (case Number raw of Fin q \<Rightarrow> q \<le> of_nat n | NegInf \<Rightarrow> True | _ \<Rightarrow> False)
            else if op = ascii ''<='' then
              (case Number raw of Fin q \<Rightarrow> of_nat n \<le> q | PosInf \<Rightarrow> True | _ \<Rightarrow> False)
            else if op = ascii ''=='' then
              (case Number raw of Fin q \<Rightarrow> of_nat n = q | _ \<Rightarrow> False)
            else False)"
proof -
  let ?c = "leftKey @ 0x20 # op @ 0x20 # raw"
  have kws: "\<forall>c\<in>set leftKey. \<not> isWhiteSpace c"
    using key by (rule ownProperty_no_whitespace)
  have sp: "0x20 \<notin> set leftKey" "0x20 \<notin> set op" "0x20 \<notin> set raw"
    using kws op raw space_isWhiteSpace by auto
  have parts: "map trim (splitOn 0x20 ?c) = [leftKey, op, raw]"
    using sp kws op raw by (simp add: splitOn_three trim_no_whitespace)
  have "0x20 \<in> set ?c" by simp
  then have ne: "?c \<noteq> ascii ''ALWAYS_MATCH''" "?c \<noteq> []"
    using always_match_no_space by (metis, simp)
  have left: "lookupProperty summary leftKey = Some (VNum (Fin (of_nat n)))"
    using key by (simp add: lookupProperty_def)
  show ?thesis
    unfolding evaluateCriteria_def using ne num
    by (cases "Number raw")
       (auto simp add: parts left isNaN_def js_gt_def js_lt_def js_ge_def js_le_def js_eq_def
          isLessThan_def toPrimitive_def toNumber_def not_less)
qed

theorem evaluateCriteria_numeric_comparison_witness:
  "ownProperty exampleSummary (ascii ''goodThoughts'') = Some 3
   \<and> list_all (\<lambda>c. \<not> isWhiteSpace c) (ascii ''>'')
   \<and> list_all (\<lambda>c. \<not> isWhiteSpace c) (ascii ''2'')
   \<and> Number (ascii ''2'') = Fin 2
   \<and> evaluateCriteria (ascii ''goodThoughts > 2'') exampleSummary"
proof -
  have h1: "ownProperty exampleSummary (ascii ''goodThoughts'') = Some 3"
    by (simp add: ownProperty_def exampleSummary_def)
  have h2: "\<forall>c\<in>set (ascii ''>''). \<not> isWhiteSpace c"
    by (simp add: ascii_def isWhiteSpace_def)
  have h3: "\<forall>c\<in>set (ascii ''2''). \<not> isWhiteSpace c"
    by (simp add: ascii_def isWhiteSpace_def)
  have h4: "Number (ascii ''2'') \<noteq> NaN"
    by (simp add: Number_2)
  have e: "ascii ''goodThoughts'' @ 0x20 # ascii ''>'' @ 0x20 # ascii ''2'' = ascii ''goodThoughts > 2''"
    by (simp add: ascii_def)
  show ?thesis
    using evaluateCriteria_numeric_comparison [OF h1 h2 h3 h4] h1 h2 h3
    by (simp add: e Number_2 list_all_iff)
qed

text \<open>
  C4, as the code has it. The empty string and \<^verbatim>\<open>ALWAYS_MATCH\<close> match. Any other
  criteria string that does not fall into exactly three parts at its single space
  characters (empty parts counted) does not match; and so does not any other criteria
  string without leading or trailing whitespace, as the loader stores them, that does
  not split on whitespace into exactly three tokens.
\<close>

theorem evaluateCriteria_part_count:
  "evaluateCriteria [] summary
   \<and> evaluateCriteria (ascii ''ALWAYS_MATCH'') summary
   \<and> (crit \<noteq> [] \<and> crit \<noteq> ascii ''ALWAYS_MATCH''
        \<and> length (splitOn 0x20 crit) \<noteq> 3 \<longrightarrow> \<not> evaluateCriteria crit summary)
   \<and> (crit \<noteq> [] \<and> crit \<noteq> ascii ''ALWAYS_MATCH'' \<and> trim crit = crit
        \<and> length (whitespaceTokens crit) \<noteq> 3 \<longrightarrow> \<not> evaluateCriteria crit summary)"
proof -
  have "\<not> evaluateCriteria crit summary"
    if "crit \<noteq> []" "crit \<noteq> ascii ''ALWAYS_MATCH''" "length (splitOn 0x20 crit) \<noteq> 3"
  proof -
    have "length (map trim (splitOn 0x20 crit)) \<noteq> 3" using that(3) by simp
    then show ?thesis
      unfolding evaluateCriteria_def using that(1,2)
      by (cases "map trim (splitOn 0x20 crit)" rule: list.exhaust) (auto split: list.splits)
  qed
  moreover have "\<not> evaluateCriteria crit summary"
    if "crit \<noteq> []" "crit \<noteq> ascii ''ALWAYS_MATCH''" "trim crit = crit"
      "length (whitespaceTokens crit) \<noteq> 3"
    using that matching_criteria_tokens [of crit summary] by blast
  ultimately show ?thesis by (simp add: evaluateCriteria_def)
qed

theorem evaluateCriteria_part_count_witness:
  "ascii ''goodThoughts >'' \<noteq> [] \<and> ascii ''goodThoughts >'' \<noteq> ascii ''ALWAYS_MATCH''
   \<and> trim (ascii ''goodThoughts >'') = ascii ''goodThoughts >''
   \<and> length (splitOn 0x20 (ascii ''goodThoughts >'')) = 2
   \<and> length (whitespaceTokens (ascii ''goodThoughts >'')) = 2
   \<and> \<not> evaluateCriteria (ascii ''goodThoughts >'') exampleSummary"
proof -
  have t: "trim (ascii ''goodThoughts >'') = ascii ''goodThoughts >''"
    by (simp add: ascii_def trim_def isWhiteSpace_def)
  have w: "length (whitespaceTokens (ascii ''goodThoughts >'')) = 2"
    by (simp add: whitespaceTokens_def ascii_def isWhiteSpace_def)
  show ?thesis
    using evaluateCriteria_part_count [of exampleSummary "ascii ''goodThoughts >''"] t w
    by (simp add: ascii_def)
qed

text \<open>
  C4, as the specification words it, fails on a criteria with whitespace at its ends:
  a TAB, \<^verbatim>\<open>goodThoughts >=\<close> and a trailing space. It is neither empty nor
  \<^verbatim>\<open>ALWAYS_MATCH\<close> and has two whitespace-separated tokens, but three parts at its
  spaces; the third part is empty, \<^verbatim>\<open>Number\<close> reads it as 0, and the criteria matches.
\<close>

theorem evaluateCriteria_token_count_counterexample:
  "length (whitespaceTokens (0x09 # ascii ''goodThoughts >= '')) = 2
   \<and> 0x09 # ascii ''goodThoughts >= '' \<noteq> []
   \<and> 0x09 # ascii ''goodThoughts >= '' \<noteq> ascii ''ALWAYS_MATCH''
   \<and> evaluateCriteria (0x09 # ascii ''goodThoughts >= '') exampleSummary"
  by (simp add: whitespaceTokens_def ascii_def isWhiteSpace_def evaluateCriteria_def trim_def
      lookupProperty_def ownProperty_def exampleSummary_def Number_def isNaN_def
      js_ge_def isLessThan_def toPrimitive_def toNumber_def)

text \<open>
  C5 at the criteria \<^verbatim>\<open>toString == toString\<close>: its left operand is none of the
  eight field names, yet \<^verbatim>\<open>'toString' in summary\<close> holds through the prototype, both
  operands are read as the same inherited function, and the criteria matches.
\<close>

theorem evaluateCriteria_inherited_key:
  "ascii ''toString'' \<notin> set logSummaryFieldNames
   \<and> evaluateCriteria (ascii ''toString == toString'') summary"
proof -
  have parts: "map trim (splitOn 0x20 (ascii ''toString == toString''))
                 = [ascii ''toString'', ascii ''=='', ascii ''toString'']"
    by (simp add: ascii_def trim_def isWhiteSpace_def)
  have look: "lookupProperty summary (ascii ''toString'') = Some (VObj (ascii ''toString''))"
    by (simp add: lookupProperty_def ownProperty_def objectPrototypeKeys_def ascii_def)
  have ne: "ascii ''toString == toString'' \<noteq> ascii ''ALWAYS_MATCH''" "ascii ''toString == toString'' \<noteq> []"
    by (simp_all add: ascii_def)
  have "evaluateCriteria (ascii ''toString == toString'') summary"
    unfolding evaluateCriteria_def using ne
    by (simp add: parts look Number_toString isNaN_def js_eq_def) (simp add: ascii_def)
  moreover have "ascii ''toString'' \<notin> set logSummaryFieldNames"
    by (simp add: logSummaryFieldNames_def ascii_def)
  ultimately show ?thesis by simp
qed

section \<open>Properties of the record selector\<close>

lemma pickRandom_member: "fst (pickRandom arr rng) = Some x \<Longrightarrow> x \<in> set arr"
proof -
  assume a: "fst (pickRandom arr rng) = Some x"
  let ?i = "\<lfloor>rng 0 * of_nat (length arr)\<rfloor>"
  from a have "0 \<le> ?i \<and> ?i < int (length arr) \<and> x = arr ! nat ?i"
    by (auto simp: pickRandom_def Let_def split: if_splits)
  then have "nat ?i < length arr" and "x = arr ! nat ?i"
    by (simp_all add: nat_less_iff)
  then show ?thesis by simp
qed

lemma pickRandom_in_range:
  assumes "0 \<le> rng 0" "rng 0 < 1" "arr \<noteq> []"
  shows "\<exists>x. fst (pickRandom arr rng) = Some x"
proof -
  let ?n = "length arr"
  have n: "0 < ?n" using assms(3) by simp
  have "0 \<le> rng 0 * of_nat ?n" using assms(1) by simp
  then have lo: "0 \<le> \<lfloor>rng 0 * of_nat ?n\<rfloor>" by simp
  have "rng 0 * of_nat ?n < 1 * of_nat ?n"
    using assms(2) n by (intro mult_strict_right_mono) simp_all
  then have "rng 0 * of_nat ?n < of_int (int ?n)" by simp
  then have hi: "\<lfloor>rng 0 * of_nat ?n\<rfloor> < int ?n" by (simp only: floor_less_iff)
  show ?thesis using lo hi by (simp add: pickRandom_def Let_def)
qed

lemma suitable_eligible:
  "st \<noteq> Some [] \<Longrightarrow> suitable allAdvice logSummary ty st = eligiblePool allAdvice logSummary ty st"
  by (cases st) (auto simp: suitable_def eligiblePool_def exactMatchPool_def Let_def intro: filter_cong)

lemma suitable_empty_subtype:
  "suitable allAdvice logSummary ty (Some []) = suitable allAdvice logSummary ty None"
  by (simp add: suitable_def)

lemma findAndPick_None_iff:
  assumes "0 \<le> rng 0" "rng 0 < 1"
  shows "fst (findAndPick allAdvice logSummary ty st rng) = None
           \<longleftrightarrow> suitable allAdvice logSummary ty st = []"
  using pickRandom_in_range [of rng "suitable allAdvice logSummary ty st"] assms
  by (auto simp: findAndPick_def Let_def)

lemma findAndPick_Some:
  "fst (findAndPick allAdvice logSummary ty st rng) = Some r
     \<Longrightarrow> r \<in> set (suitable allAdvice logSummary ty st)"
  by (auto simp: findAndPick_def Let_def split: if_splits dest: pickRandom_member)

text \<open>
  C1, as the code has it. Whatever the draw, a record that \<^verbatim>\<open>findAndPick\<close> returns
  is in the pool filtered by exact type match, and by exact subtype match when a subtype
  that is not the empty string is given, and its criteria evaluates true; for a draw in
  \<open>[0, 1)\<close> the result is \<^verbatim>\<open>null\<close> exactly when no record of that pool has a
  criteria that evaluates true. An empty subtype string counts as no subtype.
\<close>

theorem findAndPick_from_eligible_pool:
  "(fst (findAndPick allAdvice logSummary ty st rng) = Some r
      \<longrightarrow> r \<in> set (exactMatchPool allAdvice ty (if st = Some [] then None else st))
          \<and> evaluateCriteria (criteria r) logSummary)
   \<and> (0 \<le> rng 0 \<and> rng 0 < 1
      \<longrightarrow> (fst (findAndPick allAdvice logSummary ty st rng) = None
           \<longleftrightarrow> eligiblePool allAdvice logSummary ty (if st = Some [] then None else st) = []))"
proof -
  let ?st = "if st = Some [] then None else st"
  have eq: "suitable allAdvice logSummary ty st = eligiblePool allAdvice logSummary ty ?st"
    using suitable_eligible [of ?st allAdvice logSummary ty] suitable_empty_subtype [of allAdvice logSummary ty]
    by (auto split: if_splits)
  have 1: "r \<in> set (exactMatchPool allAdvice ty ?st) \<and> evaluateCriteria (criteria r) logSummary"
    if "fst (findAndPick allAdvice logSummary ty st rng) = Some r"
  proof -
    have "r \<in> set (eligiblePool allAdvice logSummary ty ?st)"
      using findAndPick_Some [OF that] eq by simp
    then show ?thesis by (simp add: eligiblePool_def)
  qed
  have 2: "fst (findAndPick allAdvice logSummary ty st rng) = None
             \<longleftrightarrow> eligiblePool allAdvice logSummary ty ?st = []"
    if "0 \<le> rng 0" "rng 0 < 1"
    using findAndPick_None_iff [of rng allAdvice logSummary ty st] that eq by simp
  show ?thesis using 1 2 by blast
qed

theorem findAndPick_from_eligible_pool_witness:
  "fst (findAndPick [tipRecord, strengthRecord] exampleSummary (ascii ''tip'') (Some (ascii ''rest''))
          (\<lambda>n. 1 / 2)) = Some tipRecord
   \<and> tipRecord \<in> set (exactMatchPool [tipRecord, strengthRecord] (ascii ''tip'') (Some (ascii ''rest'')))
   \<and> evaluateCriteria (criteria tipRecord) exampleSummary
   \<and> fst (findAndPick [tipRecord, strengthRecord] exampleSummary (ascii ''tip'') (Some (ascii ''rest''))
          (\<lambda>n. 1 / 2)) \<noteq> None
   \<and> eligiblePool [tipRecord, strengthRecord] exampleSummary (ascii ''tip'') (Some (ascii ''rest'')) \<noteq> []"
proof -
  have r: "fst (findAndPick [tipRecord, strengthRecord] exampleSummary (ascii ''tip'')
             (Some (ascii ''rest'')) (\<lambda>n. 1 / 2)) = Some tipRecord"
    by (simp add: findAndPick_def suitable_def pickRandom_def tipRecord_def strengthRecord_def
        ascii_def evaluateCriteria_def)
  show ?thesis
    using findAndPick_from_eligible_pool [of "[tipRecord, strengthRecord]" exampleSummary
        "ascii ''tip''" "Some (ascii ''rest'')" "\<lambda>n. 1 / 2" tipRecord] r
    by (simp add: ascii_def)
qed

text \<open>
  C1, as the specification words it, fails when the subtype given is the empty string:
  no record has the empty subtype, so the pool of exact matches is empty, and
  \<^verbatim>\<open>findAndPick('tip', '')\<close> still returns a record.
\<close>

theorem findAndPick_empty_subtype_counterexample:
  "fst (findAndPick [tipRecord] exampleSummary (ascii ''tip'') (Some []) (\<lambda>n. 0)) = Some tipRecord
   \<and> subtype tipRecord \<noteq> []
   \<and> exactMatchPool [tipRecord] (ascii ''tip'') (Some []) = []
   \<and> eligiblePool [tipRecord] exampleSummary (ascii ''tip'') (Some []) = []"
  by (simp add: findAndPick_def suitable_def pickRandom_def tipRecord_def ascii_def
      evaluateCriteria_def exactMatchPool_def eligiblePool_def)

text \<open>
  C10. A subtype filter only narrows the pool of suitable records; so when
  \<^verbatim>\<open>findAndPick('strength')\<close> returns \<^verbatim>\<open>null\<close> for a draw in \<open>[0, 1)\<close>, the
  retry \<^verbatim>\<open>findAndPick('strength', 'balance')\<close> returns \<^verbatim>\<open>null\<close> for every draw,
  and the strength section is the heading with the encouragement sentence.
\<close>

theorem subtype_filter_narrows_pool:
  "set (suitable allAdvice logSummary ty (Some st)) \<subseteq> set (suitable allAdvice logSummary ty None)
   \<and> (0 \<le> rng 0 \<and> rng 0 < 1
        \<and> fst (findAndPick allAdvice logSummary (ascii ''strength'') None rng) = None
      \<longrightarrow> fst (findAndPick allAdvice logSummary (ascii ''strength'') (Some (ascii ''balance'')) rng') = None
          \<and> fst (strengthSection allAdvice logSummary rng) = STRENGTH_HEADING @ STRENGTH_ENCOURAGEMENT)"
proof -
  have sub: "set (suitable allAdvice logSummary t (Some s)) \<subseteq> set (suitable allAdvice logSummary t None)"
    for t s
    by (auto simp: suitable_def Let_def split: if_splits)
  have "fst (findAndPick allAdvice logSummary (ascii ''strength'') (Some (ascii ''balance'')) r') = None
        \<and> fst (strengthSection allAdvice logSummary rng) = STRENGTH_HEADING @ STRENGTH_ENCOURAGEMENT"
    if a: "0 \<le> rng 0" "rng 0 < 1"
      and n: "fst (findAndPick allAdvice logSummary (ascii ''strength'') None rng) = None" for r'
  proof -
    have "suitable allAdvice logSummary (ascii ''strength'') None = []"
      using findAndPick_None_iff [of rng allAdvice logSummary "ascii ''strength''" None] a n by simp
    then have e: "suitable allAdvice logSummary (ascii ''strength'') (Some (ascii ''balance'')) = []"
      using sub [of "ascii ''strength''" "ascii ''balance''"] by simp
    then have f: "\<And>r. findAndPick allAdvice logSummary (ascii ''strength'') (Some (ascii ''balance'')) r = (None, r)"
      by (simp add: findAndPick_def)
    have g: "findAndPick allAdvice logSummary (ascii ''strength'') None rng = (None, rng)"
      using \<open>suitable allAdvice logSummary (ascii ''strength'') None = []\<close> by (simp add: findAndPick_def)
    show ?thesis by (simp add: strengthSection_def f g)
  qed
  then show ?thesis using sub by blast
qed

theorem subtype_filter_narrows_pool_witness:
  "fst (findAndPick [tipRecord] exampleSummary (ascii ''strength'') None (\<lambda>n. 0)) = None
   \<and> fst (findAndPick [tipRecord] exampleSummary (ascii ''strength'') (Some (ascii ''balance'')) (\<lambda>n. 1 / 2)) = None
   \<and> fst (strengthSection [tipRecord] exampleSummary (\<lambda>n. 0)) = STRENGTH_HEADING @ STRENGTH_ENCOURAGEMENT"
proof -
  have n: "fst (findAndPick [tipRecord] exampleSummary (ascii ''strength'') None (\<lambda>n. 0)) = None"
    by (simp add: findAndPick_def suitable_def tipRecord_def ascii_def)
  show ?thesis
    using subtype_filter_narrows_pool [of "[tipRecord]" exampleSummary _ _ "\<lambda>n. 0" "\<lambda>n. 1 / 2"] n
    by simp
qed

section \<open>Properties of the loader\<close>

lemma stripQuotes_no_quote: "0x22 \<notin> set val \<Longrightarrow> stripQuotes val = val"
proof -
  assume a: "0x22 \<notin> set val"
  have "val \<noteq> [] \<Longrightarrow> last val \<noteq> 0x22" using a last_in_set by metis
  then show ?thesis using a by (cases val) (auto simp: stripQuotes_def)
qed

lemma cleanField_trim: "0x22 \<notin> set current \<Longrightarrow> cleanField (trim current)"
  using set_trim [of current] by (auto simp: cleanField_def trim_idem)

lemma parseCsvLoop_clean:
  "0x22 \<notin> set current \<Longrightarrow> list_all cleanField result
     \<Longrightarrow> list_all cleanField (parseCsvLoop row result current inQuotes)"
proof (induction row arbitrary: result current inQuotes)
  case Nil
  then show ?case by (simp add: cleanField_trim)
next
  case (Cons char row)
  then show ?case by (simp add: cleanField_trim)
qed

lemma parseCsvRow_clean: "list_all cleanField (parseCsvRow row)"
proof -
  have c: "list_all cleanField (parseCsvLoop row [] [] False)"
    by (rule parseCsvLoop_clean) simp_all
  then have "map stripQuotes (parseCsvLoop row [] [] False) = parseCsvLoop row [] [] False"
    by (induction "parseCsvLoop row [] [] False")
       (auto simp: cleanField_def stripQuotes_no_quote list_all_iff intro: map_idI)
  then show ?thesis using c by (simp add: parseCsvRow_def)
qed

lemma parseAdviceRow_Some:
  assumes "parseAdviceRow row = Some r"
  shows "\<exists>ty st tx cr rest. parseCsvRow row = ty # st # tx # cr # rest
           \<and> ty \<noteq> [] \<and> st \<noteq> [] \<and> tx \<noteq> [] \<and> cr \<noteq> []
           \<and> r = \<lparr>item_type = ty, subtype = st, item_text = tx, criteria = cr\<rparr>"
proof -
  from assms obtain ty st tx cr rest where
    p: "parseCsvRow row = ty # st # tx # cr # rest"
    and ne: "ty \<noteq> []" "st \<noteq> []" "tx \<noteq> []" "cr \<noteq> []"
    and r: "r = \<lparr>item_type = ty, subtype = st, item_text = tx, criteria = trim cr\<rparr>"
    by (auto simp: parseAdviceRow_def split: if_splits list.splits)
  have "cleanField cr" using parseCsvRow_clean [of row] p by simp
  then have "trim cr = cr" by (simp add: cleanField_def)
  then show ?thesis using p ne r by simp
qed

lemma parseAdviceRow_incomplete:
  "length (parseCsvRow row) < 4 \<or> [] \<in> set (take 4 (parseCsvRow row)) \<Longrightarrow> parseAdviceRow row = None"
  by (auto simp: parseAdviceRow_def split: list.splits)

lemma set_map_filter_iff: "y \<in> set (List.map_filter f xs) \<longleftrightarrow> (\<exists>x\<in>set xs. f x = Some y)"
  by (induction xs) (auto split: option.splits)

lemma parseAdviceCsv_member:
  "r \<in> set (parseAdviceCsv csvText)
     \<longleftrightarrow> (\<exists>row\<in>set (drop 1 (splitLines csvText)). parseAdviceRow row = Some r)"
  by (simp add: parseAdviceCsv_def set_map_filter_iff)

text \<open>
  C9. After a successful load into the empty cache, every cached record has a type, a
  subtype, a text and a criteria that are present and not empty, and is the record of a
  data row whose first four fields are not empty; a row with fewer than four fields, or
  with an empty one among its first four, gives no record.
\<close>

theorem loaded_records_have_all_fields:
  assumes "fetchAndParseAdviceData None outcome = (Inr (), Some records)"
    and "r \<in> set records"
  shows "item_type r \<noteq> [] \<and> subtype r \<noteq> [] \<and> item_text r \<noteq> [] \<and> criteria r \<noteq> []
         \<and> (\<exists>csvText row ty st tx cr rest.
               outcome = ResponseText csvText \<and> row \<in> set (drop 1 (splitLines csvText))
               \<and> parseCsvRow row = ty # st # tx # cr # rest
               \<and> r = \<lparr>item_type = ty, subtype = st, item_text = tx, criteria = cr\<rparr>)
         \<and> (\<forall>row'. length (parseCsvRow row') < 4 \<or> [] \<in> set (take 4 (parseCsvRow row'))
               \<longrightarrow> parseAdviceRow row' = None)"
proof -
  from assms(1) obtain csvText where
    o: "outcome = ResponseText csvText" and recs: "records = parseAdviceCsv csvText"
    by (auto simp: fetchAndParseAdviceData_def split: fetch_outcome.splits)
  from assms(2) recs obtain row where
    row: "row \<in> set (drop 1 (splitLines csvText))" and p: "parseAdviceRow row = Some r"
    using parseAdviceCsv_member by blast
  from parseAdviceRow_Some [OF p] obtain ty st tx cr rest where
    f: "parseCsvRow row = ty # st # tx # cr # rest"
      "ty \<noteq> []" "st \<noteq> []" "tx \<noteq> []" "cr \<noteq> []"
      "r = \<lparr>item_type = ty, subtype = st, item_text = tx, criteria = cr\<rparr>"
    by blast
  have 1: "item_type r \<noteq> [] \<and> subtype r \<noteq> [] \<and> item_text r \<noteq> [] \<and> criteria r \<noteq> []"
    using f by simp
  have 2: "\<exists>csvText row ty st tx cr rest.
             outcome = ResponseText csvText \<and> row \<in> set (drop 1 (splitLines csvText))
             \<and> parseCsvRow row = ty # st # tx # cr # rest
             \<and> r = \<lparr>item_type = ty, subtype = st, item_text = tx, criteria = cr\<rparr>"
    using o row f by blast
  show ?thesis using 1 2 parseAdviceRow_incomplete by blast
qed

theorem loaded_records_have_all_fields_witness:
  "fetchAndParseAdviceData None (ResponseText exampleCsv) = (Inr (), Some [tipRecord])
   \<and> tipRecord \<in> set [tipRecord]
   \<and> item_type tipRecord \<noteq> [] \<and> subtype tipRecord \<noteq> [] \<and> item_text tipRecord \<noteq> []
   \<and> criteria tipRecord \<noteq> []
   \<and> parseCsvRow (ascii ''tip,rest,No criteria here'') = [ascii ''tip'', ascii ''rest'', ascii ''No criteria here'']
   \<and> parseAdviceRow (ascii ''tip,rest,No criteria here'') = None"
proof -
  have l: "fetchAndParseAdviceData None (ResponseText exampleCsv) = (Inr (), Some [tipRecord])"
    by code_simp
  have m: "tipRecord \<in> set [tipRecord]" by simp
  have p: "parseCsvRow (ascii ''tip,rest,No criteria here'') = [ascii ''tip'', ascii ''rest'', ascii ''No criteria here'']"
    by code_simp
  show ?thesis
    using loaded_records_have_all_fields [OF l m] l p by simp
qed


section \<open>Properties of the composer\<close>

lemma startsWith_append: "startsWith s pat \<Longrightarrow> s = pat @ drop (length pat) s"
  by (induction s pat rule: startsWith.induct) auto

lemma replaceAll_absent:
  "pat \<noteq> [] \<Longrightarrow> hd pat \<notin> set s \<Longrightarrow> replaceAll pat replacement s = s"
proof (induction s)
  case Nil
  then show ?case by simp
next
  case (Cons c cs)
  then have "\<not> startsWith (c # cs) pat" by (cases pat) auto
  then show ?case using Cons by simp
qed

lemma replaceAll_keeps:
  "x \<notin> set pat \<Longrightarrow> x \<in> set s \<Longrightarrow> x \<in> set (replaceAll pat replacement s)"
proof (induction pat replacement s rule: replaceAll.induct)
  case (1 pat replacement)
  then show ?case by simp
next
  case (2 pat replacement c cs)
  show ?case
  proof (cases "pat \<noteq> [] \<and> startsWith (c # cs) pat")
    case True
    then have "c # cs = pat @ drop (length pat) (c # cs)" using startsWith_append by blast
    then have "x \<in> set (drop (length pat) (c # cs))"
      using "2.prems" by (metis Un_iff set_append)
    then show ?thesis using True "2.IH"(1) "2.prems"(1) by simp
  next
    case False
    then show ?thesis using "2.IH"(2) "2.prems" by auto
  qed
qed

lemma substitutePlaceholders_keeps_newline:
  "0x0A \<in> set advice \<Longrightarrow> 0x0A \<in> set (substitutePlaceholders logSummary advice)"
  unfolding substitutePlaceholders_def
  by (intro replaceAll_keeps) (simp_all add: ascii_def)

lemma substitutePlaceholders_no_brace:
  "0x7B \<notin> set advice \<Longrightarrow> substitutePlaceholders logSummary advice = advice"
  unfolding substitutePlaceholders_def
  by (simp add: replaceAll_absent ascii_def)

lemma composeAdvice_has_newline:
  assumes "composeAdvice allAdvice logSummary periodLabel rng = Inr advice"
  shows "0x0A \<in> set advice"
proof -
  from assms obtain intro strength rest rng1 rng2 where
    s: "strengthSection allAdvice logSummary rng1 = (strength, rng2)"
    and a: "advice = substitutePlaceholders logSummary (intro @ strength @ rest)"
    by (auto simp: composeAdvice_def Let_def split: prod.splits sum.splits)
  have "0x0A \<in> set STRENGTH_HEADING" by (simp add: STRENGTH_HEADING_def)
  then have "0x0A \<in> set strength"
    using s by (auto simp: strengthSection_def split: prod.splits option.splits)
  then show ?thesis using a by (simp add: substitutePlaceholders_keeps_newline)
qed

lemma composeAdvice_no_records:
  "composeAdvice [] logSummary periodLabel rng
     = Inr (STRENGTH_HEADING @ STRENGTH_ENCOURAGEMENT @ TIPS_HEADING @ [0x0A])"
proof -
  have f: "\<And>ty st r. findAndPick [] logSummary ty st r = (None, r)"
    by (simp add: findAndPick_def suitable_def split: option.splits)
  have "0x7B \<notin> set (STRENGTH_HEADING @ STRENGTH_ENCOURAGEMENT @ TIPS_HEADING @ [0x0A])"
    by (simp add: STRENGTH_HEADING_def STRENGTH_ENCOURAGEMENT_def TIPS_HEADING_def)
  then show ?thesis
    by (simp add: composeAdvice_def introSection_def strengthSection_def growthSection_def
        tipsSection_def closingSection_def f substitutePlaceholders_no_brace)
qed

lemma totalActions_sum:
  "totalActions s = goodThoughts s + badThoughts s + goodActions s + badActions s
                    + goodWordsCount s + badWordsCount s + happyEvents s + toughEvents s"
  by (simp add: totalActions_def)

text \<open>
  C7. With a summary whose eight fields sum to zero, and the records cached or
  delivered by the request, the result is the no-activity message, whatever the records
  and the period label are.
\<close>

theorem zero_summary_gives_no_activity_message:
  assumes "goodThoughts s + badThoughts s + goodActions s + badActions s
           + goodWordsCount s + badWordsCount s + happyEvents s + toughEvents s = 0"
    and "allAdvice = Some records \<or> outcome = ResponseText csvText"
  shows "fst (generateDetailedAdvice allAdvice outcome rng (Some s) periodLabel) = MSG_NO_ACTIVITY"
proof -
  have t: "totalActions s = 0" using assms(1) by (simp add: totalActions_sum)
  show ?thesis
    using assms(2) t
    by (cases allAdvice)
       (auto simp: generateDetailedAdvice_def adviceBody_def fetchAndParseAdviceData_def)
qed

theorem zero_summary_gives_no_activity_message_witness:
  "fst (generateDetailedAdvice (Some [tipRecord, strengthRecord]) FetchRejected (\<lambda>n. 0)
          (Some emptySummary) (ascii ''2024-05-01'')) = MSG_NO_ACTIVITY
   \<and> fst (generateDetailedAdvice None (ResponseText exampleCsv) (\<lambda>n. 0)
          (Some emptySummary) (ascii ''2024-05-01'')) = MSG_NO_ACTIVITY"
proof -
  have z: "goodThoughts emptySummary + badThoughts emptySummary + goodActions emptySummary
           + badActions emptySummary + goodWordsCount emptySummary + badWordsCount emptySummary
           + happyEvents emptySummary + toughEvents emptySummary = 0"
    by (simp add: emptySummary_def)
  have a: "Some [tipRecord, strengthRecord] = Some [tipRecord, strengthRecord]
           \<or> FetchRejected = ResponseText exampleCsv" by simp
  have b: "None = Some [] \<or> ResponseText exampleCsv = ResponseText exampleCsv" by simp
  show ?thesis
    using zero_summary_gives_no_activity_message [OF z a]
      zero_summary_gives_no_activity_message [OF z b]
    by simp
qed

text \<open>
  C2, as the code has it. For a summary that is not \<^verbatim>\<open>null\<close>: when the record list
  is empty, cached so or just loaded so, the result is the no-activity message if the
  fields sum to zero, and otherwise the advice composed of the two fixed headings and
  the encouragement sentence; neither is the data-unavailable message. That message is
  the result for a \<^verbatim>\<open>null\<close> summary, once the records are cached or delivered.
  Nothing is thrown to the caller: an exception that leaves the body becomes the
  generation-failed message.
\<close>

theorem empty_record_list_result:
  "(allAdvice = Some [] \<or> (allAdvice = None \<and> outcome = ResponseText csvText
                              \<and> parseAdviceCsv csvText = [])
      \<longrightarrow> fst (generateDetailedAdvice allAdvice outcome rng (Some s) periodLabel)
            = (if totalActions s = 0 then MSG_NO_ACTIVITY
               else STRENGTH_HEADING @ STRENGTH_ENCOURAGEMENT @ TIPS_HEADING @ [0x0A])
          \<and> fst (generateDetailedAdvice allAdvice outcome rng (Some s) periodLabel)
            \<noteq> MSG_DATA_UNAVAILABLE)
   \<and> (allAdvice = Some records \<or> outcome = ResponseText csvText
      \<longrightarrow> fst (generateDetailedAdvice allAdvice outcome rng None periodLabel)
            = MSG_DATA_UNAVAILABLE)
   \<and> (adviceBody allAdvice outcome rng (Some s) periodLabel = (Inl e, cache)
      \<longrightarrow> generateDetailedAdvice allAdvice outcome rng (Some s) periodLabel
            = (MSG_GENERATION_FAILED, cache))"
proof -
  have d1: "MSG_NO_ACTIVITY \<noteq> MSG_DATA_UNAVAILABLE"
    by (simp add: MSG_NO_ACTIVITY_def MSG_DATA_UNAVAILABLE_def)
  have d2: "STRENGTH_HEADING @ STRENGTH_ENCOURAGEMENT @ TIPS_HEADING @ [0x0A] \<noteq> MSG_DATA_UNAVAILABLE"
    by (simp add: STRENGTH_HEADING_def MSG_DATA_UNAVAILABLE_def)
  have e: "fst (generateDetailedAdvice allAdvice outcome rng (Some s) periodLabel)
             = (if totalActions s = 0 then MSG_NO_ACTIVITY
                else STRENGTH_HEADING @ STRENGTH_ENCOURAGEMENT @ TIPS_HEADING @ [0x0A])"
    if "allAdvice = Some [] \<or> (allAdvice = None \<and> outcome = ResponseText csvText
                                  \<and> parseAdviceCsv csvText = [])"
    using that
    by (auto simp: generateDetailedAdvice_def adviceBody_def fetchAndParseAdviceData_def
        composeAdvice_no_records)
  have n: "fst (generateDetailedAdvice allAdvice outcome rng None periodLabel) = MSG_DATA_UNAVAILABLE"
    if "allAdvice = Some records \<or> outcome = ResponseText csvText"
    using that
    by (cases allAdvice)
       (auto simp: generateDetailedAdvice_def adviceBody_def fetchAndParseAdviceData_def)
  have x: "generateDetailedAdvice allAdvice outcome rng (Some s) periodLabel
             = (MSG_GENERATION_FAILED, cache)"
    if "adviceBody allAdvice outcome rng (Some s) periodLabel = (Inl e, cache)"
    using that by (simp add: generateDetailedAdvice_def)
  show ?thesis using e n x d1 d2 by simp
qed

theorem empty_record_list_result_witness:
  "fst (generateDetailedAdvice (Some []) FetchRejected (\<lambda>n. 0) (Some exampleSummary) (ascii ''2024-05-01''))
     = STRENGTH_HEADING @ STRENGTH_ENCOURAGEMENT @ TIPS_HEADING @ [0x0A]
   \<and> fst (generateDetailedAdvice (Some []) FetchRejected (\<lambda>n. 0) (Some emptySummary) (ascii ''2024-05-01''))
     = MSG_NO_ACTIVITY
   \<and> fst (generateDetailedAdvice (Some []) FetchRejected (\<lambda>n. 0) None (ascii ''2024-05-01''))
     = MSG_DATA_UNAVAILABLE"
  using empty_record_list_result [of "Some []" FetchRejected _ "\<lambda>n. 0" exampleSummary "ascii ''2024-05-01''" "[]"]
    empty_record_list_result [of "Some []" FetchRejected _ "\<lambda>n. 0" emptySummary "ascii ''2024-05-01''" "[]"]
  by (simp add: totalActions_def exampleSummary_def emptySummary_def)

text \<open>
  C2, as the specification words it, fails in both cases it names: with an empty record
  list in the cache and the example summary the result is composed advice, and with a
  \<^verbatim>\<open>null\<close> cache and a rejected request it is the generation-failed message.
\<close>

theorem data_unavailable_counterexample:
  "fst (generateDetailedAdvice (Some []) FetchRejected (\<lambda>n. 0) (Some exampleSummary) (ascii ''2024-05-01''))
     = STRENGTH_HEADING @ STRENGTH_ENCOURAGEMENT @ TIPS_HEADING @ [0x0A]
   \<and> STRENGTH_HEADING @ STRENGTH_ENCOURAGEMENT @ TIPS_HEADING @ [0x0A] \<noteq> MSG_DATA_UNAVAILABLE
   \<and> generateDetailedAdvice None FetchRejected (\<lambda>n. 0) (Some exampleSummary) (ascii ''2024-05-01'')
     = (MSG_GENERATION_FAILED, None)
   \<and> MSG_GENERATION_FAILED \<noteq> MSG_DATA_UNAVAILABLE"
proof -
  have 1: "fst (generateDetailedAdvice (Some []) FetchRejected (\<lambda>n. 0) (Some exampleSummary) (ascii ''2024-05-01''))
     = STRENGTH_HEADING @ STRENGTH_ENCOURAGEMENT @ TIPS_HEADING @ [0x0A]"
    by (simp add: generateDetailedAdvice_def adviceBody_def composeAdvice_no_records
        totalActions_def exampleSummary_def)
  have 2: "STRENGTH_HEADING @ STRENGTH_ENCOURAGEMENT @ TIPS_HEADING @ [0x0A] \<noteq> MSG_DATA_UNAVAILABLE"
    by (simp add: STRENGTH_HEADING_def MSG_DATA_UNAVAILABLE_def)
  have 3: "generateDetailedAdvice None FetchRejected (\<lambda>n. 0) (Some exampleSummary) (ascii ''2024-05-01'')
     = (MSG_GENERATION_FAILED, None)"
    by (simp add: generateDetailedAdvice_def adviceBody_def fetchAndParseAdviceData_def)
  have 4: "MSG_GENERATION_FAILED \<noteq> MSG_DATA_UNAVAILABLE"
    by (simp add: MSG_GENERATION_FAILED_def MSG_DATA_UNAVAILABLE_def)
  show ?thesis using 1 2 3 4 by simp
qed

text \<open>
  C6, as the code has it. The call always gives a string: the data-unavailable message,
  the no-activity message, the generation-failed message, or the advice that the section
  pipeline composes for the cached records and the summary; and an exception that leaves
  the body of the \<^verbatim>\<open>try\<close> block becomes the generation-failed message.
\<close>

theorem generateDetailedAdvice_results:
  "(fst (generateDetailedAdvice allAdvice outcome rng logSummary periodLabel) = MSG_DATA_UNAVAILABLE
    \<or> fst (generateDetailedAdvice allAdvice outcome rng logSummary periodLabel) = MSG_NO_ACTIVITY
    \<or> fst (generateDetailedAdvice allAdvice outcome rng logSummary periodLabel) = MSG_GENERATION_FAILED
    \<or> (\<exists>records summary.
          snd (generateDetailedAdvice allAdvice outcome rng logSummary periodLabel) = Some records
          \<and> logSummary = Some summary \<and> 0 < totalActions summary
          \<and> composeAdvice records summary periodLabel rng
              = Inr (fst (generateDetailedAdvice allAdvice outcome rng logSummary periodLabel))))
   \<and> (adviceBody allAdvice outcome rng logSummary periodLabel = (Inl e, cache)
      \<longrightarrow> generateDetailedAdvice allAdvice outcome rng logSummary periodLabel
            = (MSG_GENERATION_FAILED, cache))"
proof -
  have "generateDetailedAdvice allAdvice outcome rng logSummary periodLabel
          = (MSG_GENERATION_FAILED, cache)"
    if "adviceBody allAdvice outcome rng logSummary periodLabel = (Inl e, cache)"
    using that by (simp add: generateDetailedAdvice_def)
  moreover have
    "fst (generateDetailedAdvice allAdvice outcome rng logSummary periodLabel) = MSG_DATA_UNAVAILABLE
     \<or> fst (generateDetailedAdvice allAdvice outcome rng logSummary periodLabel) = MSG_NO_ACTIVITY
     \<or> fst (generateDetailedAdvice allAdvice outcome rng logSummary periodLabel) = MSG_GENERATION_FAILED
     \<or> (\<exists>records summary.
           snd (generateDetailedAdvice allAdvice outcome rng logSummary periodLabel) = Some records
           \<and> logSummary = Some summary \<and> 0 < totalActions summary
           \<and> composeAdvice records summary periodLabel rng
               = Inr (fst (generateDetailedAdvice allAdvice outcome rng logSummary periodLabel)))"
    by (cases allAdvice; cases outcome; cases logSummary)
       (auto simp: generateDetailedAdvice_def adviceBody_def fetchAndParseAdviceData_def
         split: sum.splits)
  ultimately show ?thesis by blast
qed

theorem generateDetailedAdvice_results_witness:
  "adviceBody None FetchRejected (\<lambda>n. 0) (Some exampleSummary) (ascii ''2024-05-01'')
     = (Inl FetchError, None)
   \<and> generateDetailedAdvice None FetchRejected (\<lambda>n. 0) (Some exampleSummary) (ascii ''2024-05-01'')
     = (MSG_GENERATION_FAILED, None)"
proof -
  have b: "adviceBody None FetchRejected (\<lambda>n. 0) (Some exampleSummary) (ascii ''2024-05-01'')
             = (Inl FetchError, None)"
    by (simp add: adviceBody_def fetchAndParseAdviceData_def)
  show ?thesis
    using generateDetailedAdvice_results [of None FetchRejected "\<lambda>n. 0" "Some exampleSummary"
        "ascii ''2024-05-01''" FetchError None] b
    by simp
qed

text \<open>
  C6, as the specification words it, fails: there are three fixed messages and not two.
  A \<^verbatim>\<open>null\<close> summary, a summary with nothing logged and a rejected request give three
  different strings, none of which holds a line feed, as all composed advice does.
\<close>

theorem three_fixed_messages_counterexample:
  "fst (generateDetailedAdvice (Some [tipRecord]) FetchRejected (\<lambda>n. 0) None (ascii ''2024-05-01''))
     = MSG_DATA_UNAVAILABLE
   \<and> fst (generateDetailedAdvice (Some [tipRecord]) FetchRejected (\<lambda>n. 0) (Some emptySummary) (ascii ''2024-05-01''))
     = MSG_NO_ACTIVITY
   \<and> fst (generateDetailedAdvice None FetchRejected (\<lambda>n. 0) (Some exampleSummary) (ascii ''2024-05-01''))
     = MSG_GENERATION_FAILED
   \<and> MSG_DATA_UNAVAILABLE \<noteq> MSG_NO_ACTIVITY
   \<and> MSG_DATA_UNAVAILABLE \<noteq> MSG_GENERATION_FAILED
   \<and> MSG_NO_ACTIVITY \<noteq> MSG_GENERATION_FAILED
   \<and> 0x0A \<notin> set MSG_DATA_UNAVAILABLE \<and> 0x0A \<notin> set MSG_NO_ACTIVITY
   \<and> 0x0A \<notin> set MSG_GENERATION_FAILED"
proof -
  have 1: "fst (generateDetailedAdvice (Some [tipRecord]) FetchRejected (\<lambda>n. 0) None (ascii ''2024-05-01''))
     = MSG_DATA_UNAVAILABLE"
    by (simp add: generateDetailedAdvice_def adviceBody_def)
  have 2: "fst (generateDetailedAdvice (Some [tipRecord]) FetchRejected (\<lambda>n. 0) (Some emptySummary) (ascii ''2024-05-01''))
     = MSG_NO_ACTIVITY"
    by (simp add: generateDetailedAdvice_def adviceBody_def totalActions_def emptySummary_def)
  have 3: "fst (generateDetailedAdvice None FetchRejected (\<lambda>n. 0) (Some exampleSummary) (ascii ''2024-05-01''))
     = MSG_GENERATION_FAILED"
    by (simp add: generateDetailedAdvice_def adviceBody_def fetchAndParseAdviceData_def)
  have 4: "MSG_DATA_UNAVAILABLE \<noteq> MSG_NO_ACTIVITY" "MSG_DATA_UNAVAILABLE \<noteq> MSG_GENERATION_FAILED"
    "MSG_NO_ACTIVITY \<noteq> MSG_GENERATION_FAILED"
    by (simp_all add: MSG_DATA_UNAVAILABLE_def MSG_NO_ACTIVITY_def MSG_GENERATION_FAILED_def)
  have 5: "0x0A \<notin> set MSG_DATA_UNAVAILABLE" "0x0A \<notin> set MSG_NO_ACTIVITY"
    "0x0A \<notin> set MSG_GENERATION_FAILED"
    by (simp_all add: MSG_DATA_UNAVAILABLE_def MSG_NO_ACTIVITY_def MSG_GENERATION_FAILED_def)
  show ?thesis using 1 2 3 4 5 by simp
qed

lemma unitDraws_findAndPick:
  "unitDraws rng \<Longrightarrow> unitDraws (snd (findAndPick allAdvice logSummary ty st rng))"
  by (simp add: unitDraws_def findAndPick_def pickRandom_def Let_def)

lemma unitDraws_introSection:
  "unitDraws rng \<Longrightarrow> unitDraws (snd (introSection allAdvice logSummary periodLabel rng))"
proof -
  assume u: "unitDraws rng"
  let ?a = "findAndPick allAdvice logSummary (ascii ''intro'') (Some (periodType periodLabel)) rng"
  let ?b = "findAndPick allAdvice logSummary (ascii ''intro'') (Some (ascii ''default'')) (snd ?a)"
  have 1: "unitDraws (snd ?a)" using u by (rule unitDraws_findAndPick)
  then have 2: "unitDraws (snd ?b)" by (rule unitDraws_findAndPick)
  have "snd (introSection allAdvice logSummary periodLabel rng) = snd ?a
        \<or> snd (introSection allAdvice logSummary periodLabel rng) = snd ?b"
    by (auto simp: introSection_def split: prod.splits option.splits)
  then show ?thesis using 1 2 by auto
qed

lemma strengthSection_entry:
  assumes "unitDraws rng"
  shows "if suitable allAdvice logSummary (ascii ''strength'') None = []
         then fst (strengthSection allAdvice logSummary rng) = STRENGTH_HEADING @ STRENGTH_ENCOURAGEMENT
         else \<exists>r\<in>set (suitable allAdvice logSummary (ascii ''strength'') None).
                fst (strengthSection allAdvice logSummary rng)
                  = STRENGTH_HEADING @ ascii ''1. '' @ item_text r @ [0x0A, 0x0A]"
proof (cases "suitable allAdvice logSummary (ascii ''strength'') None = []")
  case True
  have "set (suitable allAdvice logSummary (ascii ''strength'') (Some (ascii ''balance'')))
          \<subseteq> set (suitable allAdvice logSummary (ascii ''strength'') None)"
    by (auto simp: suitable_def Let_def split: if_splits)
  then have e: "suitable allAdvice logSummary (ascii ''strength'') (Some (ascii ''balance'')) = []"
    using True by simp
  show ?thesis using True e by (simp add: strengthSection_def findAndPick_def)
next
  case False
  have r: "0 \<le> rng 0" "rng 0 < 1" using assms by (simp_all add: unitDraws_def)
  have "fst (findAndPick allAdvice logSummary (ascii ''strength'') None rng) \<noteq> None"
    using findAndPick_None_iff [of rng allAdvice logSummary "ascii ''strength''" None] r False
    by simp
  then obtain x where x: "fst (findAndPick allAdvice logSummary (ascii ''strength'') None rng) = Some x"
    by blast
  then have m: "x \<in> set (suitable allAdvice logSummary (ascii ''strength'') None)"
    by (rule findAndPick_Some)
  have "fst (strengthSection allAdvice logSummary rng)
          = STRENGTH_HEADING @ ascii ''1. '' @ item_text x @ [0x0A, 0x0A]"
    using x by (auto simp: strengthSection_def split: prod.splits)
  then show ?thesis using False m by auto
qed

lemma unitDraws_pickRandom: "unitDraws rng \<Longrightarrow> unitDraws (snd (pickRandom arr rng))"
  by (simp add: unitDraws_def pickRandom_def Let_def)

lemma unitDraws_strengthSection:
  "unitDraws rng \<Longrightarrow> unitDraws (snd (strengthSection allAdvice logSummary rng))"
proof -
  assume u: "unitDraws rng"
  let ?a = "findAndPick allAdvice logSummary (ascii ''strength'') None rng"
  let ?b = "findAndPick allAdvice logSummary (ascii ''strength'') (Some (ascii ''balance'')) (snd ?a)"
  have 1: "unitDraws (snd ?a)" using u by (rule unitDraws_findAndPick)
  then have 2: "unitDraws (snd ?b)" by (rule unitDraws_findAndPick)
  have "snd (strengthSection allAdvice logSummary rng) = snd ?a
        \<or> snd (strengthSection allAdvice logSummary rng) = snd ?b"
    by (auto simp: strengthSection_def split: prod.splits option.splits)
  then show ?thesis using 1 2 by auto
qed

lemma unitDraws_growthSection:
  "unitDraws rng \<Longrightarrow> unitDraws (snd (snd (growthSection allAdvice logSummary rng)))"
proof -
  assume u: "unitDraws rng"
  have "snd (snd (growthSection allAdvice logSummary rng))
          = snd (findAndPick allAdvice logSummary (ascii ''growth'') None rng)"
    by (auto simp: growthSection_def split: prod.splits option.splits)
  then show ?thesis using u by (simp add: unitDraws_findAndPick)
qed

lemma pickRandom_unitDraws_Some:
  assumes "unitDraws rng" "arr \<noteq> []"
  shows "\<exists>x r. pickRandom arr rng = (Some x, r)"
proof -
  have "0 \<le> rng 0" "rng 0 < 1" using assms(1) by (simp_all add: unitDraws_def)
  then obtain x where "fst (pickRandom arr rng) = Some x"
    using pickRandom_in_range [of rng arr] assms(2) by blast
  then show ?thesis by (metis prod.collapse)
qed

lemma tipsSection_total:
  assumes "unitDraws rng"
  shows "\<exists>tips r. tipsSection allAdvice logSummary growthSubtype rng = Inr (tips, r)"
proof -
  let ?first =
    "case growthSubtype of
       None \<Rightarrow> ([], rng)
     | Some gs \<Rightarrow>
         if gs \<noteq> [] then
           (case findAndPick allAdvice logSummary (ascii ''tip'') (Some gs) rng of
              (Some growthTip, r) \<Rightarrow> ([item_text growthTip], r)
            | (None, r) \<Rightarrow> ([], r))
         else ([], rng)"
  have u1: "unitDraws (snd ?first)"
  proof (cases growthSubtype)
    case None
    then show ?thesis using assms by simp
  next
    case (Some gs)
    show ?thesis
    proof (cases "gs = []")
      case True
      then show ?thesis using Some assms by simp
    next
      case False
      then have "snd ?first = snd (findAndPick allAdvice logSummary (ascii ''tip'') (Some gs) rng)"
        using Some by (auto split: prod.splits option.splits)
      then show ?thesis using assms by (simp add: unitDraws_findAndPick)
    qed
  qed
  let ?second = "findAndPick allAdvice logSummary (ascii ''tip'') (Some (ascii ''maintainStrengths'')) (snd ?first)"
  have u2: "unitDraws (snd ?second)" using u1 by (rule unitDraws_findAndPick)
  let ?fallbackTip = "filter (\<lambda>a. item_type a = ascii ''tip'' \<and> subtype a \<noteq> ascii ''maintainStrengths'') allAdvice"
  have "?fallbackTip \<noteq> [] \<Longrightarrow> \<exists>x r. pickRandom ?fallbackTip (snd ?second) = (Some x, r)"
    using pickRandom_unitDraws_Some [OF u2] by blast
  then show ?thesis
    unfolding tipsSection_def
    by (auto simp: Let_def split: prod.splits option.splits)
qed

lemma composeAdvice_total:
  assumes "unitDraws rng"
  shows "\<exists>advice. composeAdvice allAdvice logSummary periodLabel rng = Inr advice"
proof -
  let ?r1 = "snd (introSection allAdvice logSummary periodLabel rng)"
  let ?r2 = "snd (strengthSection allAdvice logSummary ?r1)"
  let ?g = "growthSection allAdvice logSummary ?r2"
  have "unitDraws (snd (snd ?g))"
    using assms unitDraws_introSection unitDraws_strengthSection unitDraws_growthSection by blast
  then obtain tips r where
    "tipsSection allAdvice logSummary (fst (snd ?g)) (snd (snd ?g)) = Inr (tips, r)"
    using tipsSection_total by blast
  then show ?thesis
    by (auto simp: composeAdvice_def Let_def split: prod.splits)
qed

lemma composeAdvice_strength_entry:
  assumes "unitDraws rng"
    and "composeAdvice allAdvice logSummary periodLabel rng = Inr advice"
  shows "\<exists>entry rest.
           advice = substitutePlaceholders logSummary
                      (fst (introSection allAdvice logSummary periodLabel rng)
                       @ STRENGTH_HEADING @ entry @ rest)
           \<and> (if suitable allAdvice logSummary (ascii ''strength'') None = []
              then entry = STRENGTH_ENCOURAGEMENT
              else \<exists>r\<in>set (suitable allAdvice logSummary (ascii ''strength'') None).
                     entry = ascii ''1. '' @ item_text r @ [0x0A, 0x0A])"
proof -
  let ?rng1 = "snd (introSection allAdvice logSummary periodLabel rng)"
  let ?strength = "fst (strengthSection allAdvice logSummary ?rng1)"
  from assms(2) obtain rest where
    a: "advice = substitutePlaceholders logSummary
                   (fst (introSection allAdvice logSummary periodLabel rng) @ ?strength @ rest)"
    by (auto simp: composeAdvice_def Let_def split: prod.splits sum.splits)
  have u: "unitDraws ?rng1" using assms(1) by (rule unitDraws_introSection)
  show ?thesis
  proof (cases "suitable allAdvice logSummary (ascii ''strength'') None = []")
    case True
    then have "?strength = STRENGTH_HEADING @ STRENGTH_ENCOURAGEMENT"
      using strengthSection_entry [OF u, of allAdvice logSummary] by simp
    then show ?thesis using a True by auto
  next
    case False
    then obtain r where r: "r \<in> set (suitable allAdvice logSummary (ascii ''strength'') None)"
      and e: "?strength = STRENGTH_HEADING @ ascii ''1. '' @ item_text r @ [0x0A, 0x0A]"
      using strengthSection_entry [OF u, of allAdvice logSummary] by auto
    let ?entry = "ascii ''1. '' @ item_text r @ [0x0A, 0x0A]"
    have "advice = substitutePlaceholders logSummary
                     (fst (introSection allAdvice logSummary periodLabel rng)
                      @ STRENGTH_HEADING @ ?entry @ rest)"
      using a e by simp
    moreover have "\<exists>r\<in>set (suitable allAdvice logSummary (ascii ''strength'') None).
                     ?entry = ascii ''1. '' @ item_text r @ [0x0A, 0x0A]"
      using r by blast
    ultimately show ?thesis using False by (intro exI [of _ ?entry] exI [of _ rest]) simp
  qed
qed

text \<open>
  C8, as the code has it. With the records loaded, a summary whose fields do not sum to
  zero and draws in \<open>[0, 1)\<close>, the advice is composed, and in it the intro is followed
  by the strength heading and one entry: when no strength record is suitable, the fixed
  encouragement sentence, which carries no number; otherwise \<^verbatim>\<open>1. \<close> and the text of
  a suitable strength record, picked without a subtype filter.
\<close>

theorem strength_section_of_composed_advice:
  assumes "unitDraws rng"
    and "0 < goodThoughts s + badThoughts s + goodActions s + badActions s
             + goodWordsCount s + badWordsCount s + happyEvents s + toughEvents s"
  shows "\<exists>entry rest.
           fst (generateDetailedAdvice (Some records) outcome rng (Some s) periodLabel)
             = substitutePlaceholders s
                 (fst (introSection records s periodLabel rng) @ STRENGTH_HEADING @ entry @ rest)
           \<and> (if suitable records s (ascii ''strength'') None = []
              then entry = STRENGTH_ENCOURAGEMENT
              else \<exists>r\<in>set (suitable records s (ascii ''strength'') None).
                     entry = ascii ''1. '' @ item_text r @ [0x0A, 0x0A])"
proof -
  obtain advice where a: "composeAdvice records s periodLabel rng = Inr advice"
    using composeAdvice_total [OF assms(1)] by blast
  have "totalActions s \<noteq> 0" using assms(2) by (simp add: totalActions_sum)
  then have "fst (generateDetailedAdvice (Some records) outcome rng (Some s) periodLabel) = advice"
    using a by (simp add: generateDetailedAdvice_def adviceBody_def)
  then show ?thesis using composeAdvice_strength_entry [OF assms(1) a] by simp
qed

lemma unitDraws_zero: "unitDraws (\<lambda>n. 0)"
  by (simp add: unitDraws_def)

lemma composeAdvice_example:
  "composeAdvice [tipRecord, strengthRecord] exampleSummary (ascii ''2024-05-01'') (\<lambda>n. 0)
     = Inr (STRENGTH_HEADING @ ascii ''1. You kept 2 good actions'' @ [0x0A, 0x0A]
            @ TIPS_HEADING @ ascii ''1. Sleep early'' @ [0x0A, 0x0A])"
  by code_simp

lemma composeAdvice_tip_only:
  "composeAdvice [tipRecord] exampleSummary (ascii ''2024-05-01'') (\<lambda>n. 0)
     = Inr (STRENGTH_HEADING @ STRENGTH_ENCOURAGEMENT
            @ TIPS_HEADING @ ascii ''1. Sleep early'' @ [0x0A, 0x0A])"
  by code_simp

theorem strength_section_of_composed_advice_witness:
  "unitDraws (\<lambda>n. 0)
   \<and> suitable [tipRecord, strengthRecord] exampleSummary (ascii ''strength'') None = [strengthRecord]
   \<and> (\<exists>entry rest.
         fst (generateDetailedAdvice (Some [tipRecord, strengthRecord]) FetchRejected (\<lambda>n. 0)
                (Some exampleSummary) (ascii ''2024-05-01''))
         = substitutePlaceholders exampleSummary
             (fst (introSection [tipRecord, strengthRecord] exampleSummary (ascii ''2024-05-01'') (\<lambda>n. 0))
              @ STRENGTH_HEADING @ entry @ rest)
         \<and> entry = ascii ''1. '' @ item_text strengthRecord @ [0x0A, 0x0A])
   \<and> fst (generateDetailedAdvice (Some [tipRecord, strengthRecord]) FetchRejected (\<lambda>n. 0)
            (Some exampleSummary) (ascii ''2024-05-01''))
       = STRENGTH_HEADING @ ascii ''1. You kept 2 good actions'' @ [0x0A, 0x0A]
         @ TIPS_HEADING @ ascii ''1. Sleep early'' @ [0x0A, 0x0A]"
proof -
  have s: "suitable [tipRecord, strengthRecord] exampleSummary (ascii ''strength'') None = [strengthRecord]"
    by code_simp
  have p: "0 < goodThoughts exampleSummary + badThoughts exampleSummary + goodActions exampleSummary
             + badActions exampleSummary + goodWordsCount exampleSummary
             + badWordsCount exampleSummary + happyEvents exampleSummary + toughEvents exampleSummary"
    by (simp add: exampleSummary_def)
  have g: "fst (generateDetailedAdvice (Some [tipRecord, strengthRecord]) FetchRejected (\<lambda>n. 0)
                 (Some exampleSummary) (ascii ''2024-05-01''))
           = STRENGTH_HEADING @ ascii ''1. You kept 2 good actions'' @ [0x0A, 0x0A]
             @ TIPS_HEADING @ ascii ''1. Sleep early'' @ [0x0A, 0x0A]"
    using composeAdvice_example
    by (simp add: generateDetailedAdvice_def adviceBody_def totalActions_def exampleSummary_def)
  show ?thesis
    using strength_section_of_composed_advice [OF unitDraws_zero p, of "[tipRecord, strengthRecord]"
        FetchRejected "ascii ''2024-05-01''"]
      unitDraws_zero s g
    by simp
qed

text \<open>
  C8, as the specification words it, fails when no strength record is suitable: the
  section is then the heading and the encouragement sentence, with no numbered item.
\<close>

theorem strength_section_unnumbered_counterexample:
  "composeAdvice [tipRecord] exampleSummary (ascii ''2024-05-01'') (\<lambda>n. 0)
     = Inr (STRENGTH_HEADING @ STRENGTH_ENCOURAGEMENT
            @ TIPS_HEADING @ ascii ''1. Sleep early'' @ [0x0A, 0x0A])
   \<and> fst (strengthSection [tipRecord] exampleSummary (\<lambda>n. 0))
       = STRENGTH_HEADING @ STRENGTH_ENCOURAGEMENT
   \<and> \<not> includes_str (STRENGTH_HEADING @ STRENGTH_ENCOURAGEMENT) (ascii ''1. '')"
proof -
  have 1: "fst (strengthSection [tipRecord] exampleSummary (\<lambda>n. 0))
             = STRENGTH_HEADING @ STRENGTH_ENCOURAGEMENT"
    by (simp add: strengthSection_def findAndPick_def suitable_def tipRecord_def ascii_def)
  have 2: "\<not> includes_str (STRENGTH_HEADING @ STRENGTH_ENCOURAGEMENT) (ascii ''1. '')"
    by (simp add: STRENGTH_HEADING_def STRENGTH_ENCOURAGEMENT_def ascii_def)
  show ?thesis using composeAdvice_tip_only 1 2 by simp
qed


end
